theory Spec2Isabelle
  imports Main
begin

section \<open>ObaNet authentication core\<close>

text \<open>
  A shallow embedding of the authentication and session code of the ObaNet backend:
  \<^item> \<^verbatim>\<open>config/config.js\<close> (the JWT and cache settings),
  \<^item> \<^verbatim>\<open>config/redis.js\<close> (\<^verbatim>\<open>redisUtils\<close>),
  \<^item> \<^verbatim>\<open>models/User.js\<close> (token generation, password comparison),
  \<^item> \<^verbatim>\<open>middleware/auth.js\<close> (\<^verbatim>\<open>authenticate\<close>, \<^verbatim>\<open>optionalAuth\<close>,
    \<^verbatim>\<open>userRateLimit\<close>, \<^verbatim>\<open>validateRefreshToken\<close>, \<^verbatim>\<open>blacklistToken\<close>),
  \<^item> \<^verbatim>\<open>controllers/authController.js\<close> and \<^verbatim>\<open>routes/auth.js\<close>.

  Conventions. Time is a natural number of seconds; a quantity the source gives in
  milliseconds is divided by 1000 where the source does so, and written in seconds
  otherwise. An Express middleware either sends a response, calls \<^verbatim>\<open>next()\<close> with the
  (possibly updated) request, or lets an error reach the global error handler; these
  are the three constructors of \<open>outcome\<close>. The Redis client and the MongoDB
  connection are explicit state, threaded through every function.
\<close>

subsection \<open>Configuration\<close>

text \<open>
  \<^verbatim>\<open>config.jwt\<close>: the two secrets and the two lifetimes come from the environment
  (defaults \<^verbatim>\<open>'7d'\<close> and \<^verbatim>\<open>'30d'\<close>); lifetimes are held in seconds. The algorithm
  and the cache TTLs are constants of the file.
\<close>

record config =
  jwt_secret :: string
  jwt_expiresIn :: nat
  jwt_refreshSecret :: string
  jwt_refreshExpiresIn :: nat

definition default_config :: config where
  "default_config =
     \<lparr> jwt_secret = ''fallback-secret-key-change-in-production'',
       jwt_expiresIn = 7 * 24 * 60 * 60,
       jwt_refreshSecret = ''fallback-refresh-secret'',
       jwt_refreshExpiresIn = 30 * 24 * 60 * 60 \<rparr>"

definition jwt_algorithm :: string where
  "jwt_algorithm = ''HS256''"

definition cache_ttl_short :: nat where
  "cache_ttl_short = 60 * 5"

definition cache_ttl_medium :: nat where
  "cache_ttl_medium = 60 * 60"

definition cache_ttl_user :: nat where
  "cache_ttl_user = 60 * 30"

subsection \<open>The user document\<close>

datatype status = Active | Suspended | Deactivated

fun status_str :: "status \<Rightarrow> string" where
  "status_str Active = ''active''"
| "status_str Suspended = ''suspended''"
| "status_str Deactivated = ''deactivated''"

datatype role = RoleUser | RoleModerator | RoleAdmin

text \<open>
  Hashes are symbolic: \<open>Sha256Hex x\<close> is the hex SHA-256 digest of \<open>x\<close>, and
  \<open>Bcrypt k\<close> the bcrypt hash computed from the key material \<open>k\<close> (salt and cost left
  out). bcryptjs appends a zero byte to the UTF-8 bytes of the password and reads 72 bytes
  of the result cyclically; nothing else of the password enters the hash. \<open>bcrypt_key\<close>
  is that key material, so two passwords have the same hash exactly when they have the
  same \<open>bcrypt_key\<close>: in particular when they agree on their first 72 bytes.
\<close>

datatype pwhash = Bcrypt string

definition bcrypt_key :: "string \<Rightarrow> string" where
  "bcrypt_key p = take 72 (concat (replicate 72 (p @ [CHR 0x00])))"

definition bcrypt_hash :: "string \<Rightarrow> pwhash" where
  "bcrypt_hash p = Bcrypt (bcrypt_key p)"

datatype digest = Sha256Hex string

record login_record =
  lr_timestamp :: nat
  lr_ip :: string
  lr_userAgent :: "string option"
  lr_location :: string

text \<open>
  The fields of the User schema that the authentication code reads or writes. A field
  that a query deselects, or that is \<^verbatim>\<open>undefined\<close>, is \<open>None\<close>. The profile,
  statistics and relationship fields are left out.
\<close>

record user_doc =
  uid :: string
  firstName :: string
  lastName :: string
  username :: string
  email :: string
  password :: "pwhash option"
  status :: status
  role :: role
  isEmailVerified :: bool
  emailVerificationToken :: "digest option"
  emailVerificationExpires :: "nat option"
  passwordResetToken :: "digest option"
  passwordResetExpires :: "nat option"
  lastActive :: nat
  loginHistory :: "login_record list"

subsection \<open>Signed tokens (the jsonwebtoken library)\<close>

text \<open>
  A raw token is either a string that is no JWT at all, or a JWT: the secret and
  algorithm it was signed with, its payload, and its \<^verbatim>\<open>iat\<close> and \<^verbatim>\<open>exp\<close> claims.
  \<open>jwt_sign\<close> and \<open>jwt_verify\<close> model \<^verbatim>\<open>jwt.sign\<close> and \<^verbatim>\<open>jwt.verify\<close> of the
  library: verification checks structure, algorithm and signature first and the expiry
  last, and reports expiry when the clock has reached \<^verbatim>\<open>exp\<close>. The library's errors
  are named \<^verbatim>\<open>TokenExpiredError\<close>, \<^verbatim>\<open>JsonWebTokenError\<close> and \<^verbatim>\<open>NotBeforeError\<close>; the
  tokens of this backend are signed with \<^verbatim>\<open>expiresIn\<close> and \<^verbatim>\<open>algorithm\<close> only and carry
  no not-before claim, so the third never arises from \<open>jwt_verify\<close>.
\<close>

datatype jwt_payload =
    AccessPayload string string string role
  | RefreshPayload string

fun payload_userId :: "jwt_payload \<Rightarrow> string" where
  "payload_userId (AccessPayload u _ _ _) = u"
| "payload_userId (RefreshPayload u) = u"

datatype token =
    Garbage string
  | Jwt string string jwt_payload nat nat

datatype jwt_error = TokenExpiredError | JsonWebTokenError | NotBeforeError

fun jwt_sign :: "jwt_payload \<Rightarrow> string \<Rightarrow> nat \<Rightarrow> string \<Rightarrow> nat \<Rightarrow> token" where
  "jwt_sign payload secret expiresIn alg now = Jwt secret alg payload now (now + expiresIn)"

fun jwt_verify :: "token \<Rightarrow> string \<Rightarrow> string list \<Rightarrow> nat \<Rightarrow> jwt_error + jwt_payload" where
  "jwt_verify (Garbage _) secret algs now = Inl JsonWebTokenError"
| "jwt_verify (Jwt s a payload iat exp) secret algs now =
     (if a \<notin> set algs then Inl JsonWebTokenError
      else if s \<noteq> secret then Inl JsonWebTokenError
      else if exp \<le> now then Inl TokenExpiredError
      else Inr payload)"

text \<open>\<^verbatim>\<open>userSchema.methods.generateAuthToken\<close> and \<^verbatim>\<open>generateRefreshToken\<close>.\<close>

definition generateAuthToken :: "config \<Rightarrow> nat \<Rightarrow> user_doc \<Rightarrow> token" where
  "generateAuthToken cfg now u =
     jwt_sign (AccessPayload (uid u) (email u) (username u) (role u))
       (jwt_secret cfg) (jwt_expiresIn cfg) jwt_algorithm now"

definition generateRefreshToken :: "config \<Rightarrow> nat \<Rightarrow> user_doc \<Rightarrow> token" where
  "generateRefreshToken cfg now u =
     jwt_sign (RefreshPayload (uid u))
       (jwt_refreshSecret cfg) (jwt_refreshExpiresIn cfg) jwt_algorithm now"

text \<open>
  \<^verbatim>\<open>userSchema.methods.comparePassword\<close>: \<^verbatim>\<open>bcrypt.compare\<close> against the stored hash.
  On a document without its \<^verbatim>\<open>password\<close> field \<^verbatim>\<open>bcrypt.compare\<close> throws, which is
  \<open>None\<close>.
\<close>

definition comparePassword :: "user_doc \<Rightarrow> string \<Rightarrow> bool option" where
  "comparePassword u candidatePassword =
     (case password u of
        None \<Rightarrow> None
      | Some h \<Rightarrow> Some (h = bcrypt_hash candidatePassword))"

subsection \<open>The Redis client and \<^verbatim>\<open>redisUtils\<close>\<close>

text \<open>
  Keys, by the template that builds them:
  \<^verbatim>\<open>blacklist:${token}\<close>, \<^verbatim>\<open>blacklist:refresh:${token}\<close>, \<^verbatim>\<open>refresh_token:${id}\<close>,
  \<^verbatim>\<open>diaspora:${id}\<close>, \<^verbatim>\<open>rate_limit:user:${id}\<close>.
  Values are what \<^verbatim>\<open>JSON.stringify\<close> wrote (a string, a token, a user document) or
  the integer that \<^verbatim>\<open>INCR\<close> maintains. An entry carries the instant at which it
  expires, if it has one; an entry whose instant has been reached is gone.
\<close>

datatype rkey =
    BlacklistKey token
  | BlacklistRefreshKey token
  | RefreshTokenKey string
  | DiasporaKey string
  | RateLimitUserKey string

datatype rvalue =
    JsonString string
  | JsonToken token
  | JsonUser user_doc
  | Counter int

datatype redis_error = RedisError

text \<open>
  \<open>isReady\<close> is \<^verbatim>\<open>redisClient && redisClient.isReady\<close>; \<open>failing\<close> says that a
  command sent to the server is rejected (the \<^verbatim>\<open>catch\<close> branches of \<^verbatim>\<open>redisUtils\<close>).
\<close>

record redis_client =
  isReady :: bool
  failing :: bool
  entries :: "rkey \<rightharpoonup> (rvalue \<times> nat option)"

fun unexpired :: "nat option \<Rightarrow> nat \<Rightarrow> bool" where
  "unexpired None now = True"
| "unexpired (Some e) now = (now < e)"

definition live :: "redis_client \<Rightarrow> nat \<Rightarrow> rkey \<Rightarrow> rvalue option" where
  "live c now k =
     (case entries c k of
        None \<Rightarrow> None
      | Some (v, e) \<Rightarrow> (if unexpired e now then Some v else None))"

definition client_get :: "redis_client \<Rightarrow> nat \<Rightarrow> rkey \<Rightarrow> redis_error + rvalue option" where
  "client_get c now k = (if failing c then Inl RedisError else Inr (live c now k))"

definition client_setEx ::
  "redis_client \<Rightarrow> nat \<Rightarrow> rkey \<Rightarrow> nat \<Rightarrow> rvalue \<Rightarrow> redis_error + redis_client" where
  "client_setEx c now k ttl v =
     (if failing c then Inl RedisError
      else Inr (c\<lparr>entries := (entries c)(k \<mapsto> (v, Some (now + ttl)))\<rparr>))"

definition client_del :: "redis_client \<Rightarrow> rkey \<Rightarrow> redis_error + redis_client" where
  "client_del c k =
     (if failing c then Inl RedisError
      else Inr (c\<lparr>entries := (entries c)(k := None)\<rparr>))"

definition client_exists :: "redis_client \<Rightarrow> nat \<Rightarrow> rkey \<Rightarrow> redis_error + nat" where
  "client_exists c now k =
     (if failing c then Inl RedisError
      else Inr (case live c now k of None \<Rightarrow> 0 | Some _ \<Rightarrow> 1))"

text \<open>
  \<^verbatim>\<open>INCR\<close>: a key that is absent counts from 0 and gets no expiry; a live integer is
  incremented and keeps its expiry; any other value is an error.
\<close>

definition client_incr ::
  "redis_client \<Rightarrow> nat \<Rightarrow> rkey \<Rightarrow> redis_error + (redis_client \<times> int)" where
  "client_incr c now k =
     (if failing c then Inl RedisError
      else (case entries c k of
              None \<Rightarrow> Inr (c\<lparr>entries := (entries c)(k \<mapsto> (Counter 1, None))\<rparr>, 1)
            | Some (v, e) \<Rightarrow>
                (if \<not> unexpired e now
                 then Inr (c\<lparr>entries := (entries c)(k \<mapsto> (Counter 1, None))\<rparr>, 1)
                 else (case v of
                         Counter n \<Rightarrow>
                           Inr (c\<lparr>entries := (entries c)(k \<mapsto> (Counter (n + 1), e))\<rparr>, n + 1)
                       | _ \<Rightarrow> Inl RedisError))))"

definition client_expire ::
  "redis_client \<Rightarrow> nat \<Rightarrow> rkey \<Rightarrow> nat \<Rightarrow> redis_error + redis_client" where
  "client_expire c now k ttl =
     (if failing c then Inl RedisError
      else (case live c now k of
              None \<Rightarrow> Inr c
            | Some v \<Rightarrow> Inr (c\<lparr>entries := (entries c)(k \<mapsto> (v, Some (now + ttl)))\<rparr>)))"

definition redisUtils_get :: "redis_client \<Rightarrow> nat \<Rightarrow> rkey \<Rightarrow> rvalue option" where
  "redisUtils_get c now k =
     (if \<not> isReady c then None
      else (case client_get c now k of Inl _ \<Rightarrow> None | Inr r \<Rightarrow> r))"

definition redisUtils_set ::
  "redis_client \<Rightarrow> nat \<Rightarrow> rkey \<Rightarrow> rvalue \<Rightarrow> nat \<Rightarrow> redis_client \<times> bool" where
  "redisUtils_set c now k v ttl =
     (if \<not> isReady c then (c, False)
      else (case client_setEx c now k ttl v of
              Inl _ \<Rightarrow> (c, False)
            | Inr c' \<Rightarrow> (c', True)))"

definition redisUtils_del :: "redis_client \<Rightarrow> rkey \<Rightarrow> redis_client \<times> bool" where
  "redisUtils_del c k =
     (if \<not> isReady c then (c, False)
      else (case client_del c k of Inl _ \<Rightarrow> (c, False) | Inr c' \<Rightarrow> (c', True)))"

definition redisUtils_exists :: "redis_client \<Rightarrow> nat \<Rightarrow> rkey \<Rightarrow> bool" where
  "redisUtils_exists c now k =
     (if \<not> isReady c then False
      else (case client_exists c now k of Inl _ \<Rightarrow> False | Inr n \<Rightarrow> n = 1))"

definition redisUtils_incr ::
  "redis_client \<Rightarrow> nat \<Rightarrow> rkey \<Rightarrow> nat \<Rightarrow> redis_client \<times> int" where
  "redisUtils_incr c now k ttl =
     (if \<not> isReady c then (c, 1)
      else (case client_incr c now k of
              Inl _ \<Rightarrow> (c, 1)
            | Inr (c1, result) \<Rightarrow>
                (if result = 1
                 then (case client_expire c1 now k ttl of
                         Inl _ \<Rightarrow> (c1, 1)
                       | Inr c2 \<Rightarrow> (c2, result))
                 else (c1, result))))"

definition cacheDiasporaData ::
  "redis_client \<Rightarrow> nat \<Rightarrow> string \<Rightarrow> user_doc \<Rightarrow> redis_client \<times> bool" where
  "cacheDiasporaData c now userId diasporaInfo =
     redisUtils_set c now (DiasporaKey userId) (JsonUser diasporaInfo) cache_ttl_user"

text \<open>
  \<^verbatim>\<open>getDiasporaData\<close> returns \<^verbatim>\<open>JSON.parse\<close> of what the key holds, or \<^verbatim>\<open>null\<close>.
\<close>

definition getDiasporaData :: "redis_client \<Rightarrow> nat \<Rightarrow> string \<Rightarrow> rvalue option" where
  "getDiasporaData c now userId = redisUtils_get c now (DiasporaKey userId)"

text \<open>JavaScript truthiness of a parsed value.\<close>

fun truthy :: "rvalue \<Rightarrow> bool" where
  "truthy (JsonString s) = (s \<noteq> [])"
| "truthy (JsonToken _) = True"
| "truthy (JsonUser _) = True"
| "truthy (Counter n) = (n \<noteq> 0)"

subsection \<open>The user collection\<close>

text \<open>
  The User model: the connection, the documents, and the string setters that the schema
  declares and mongoose applies to a field when a document is created and to a filter
  value when a query is cast: \<^verbatim>\<open>trim\<close> on \<^verbatim>\<open>firstName\<close> and \<^verbatim>\<open>lastName\<close>, \<^verbatim>\<open>trim\<close> and
  \<^verbatim>\<open>lowercase\<close> on \<^verbatim>\<open>username\<close>, \<^verbatim>\<open>lowercase\<close> on \<^verbatim>\<open>email\<close>. The setters are
  JavaScript's \<^verbatim>\<open>String.prototype.trim\<close> and \<^verbatim>\<open>toLowerCase\<close>; the model takes them as
  given functions. \<^verbatim>\<open>username\<close> and \<^verbatim>\<open>email\<close> carry unique indexes.
\<close>

datatype store_error = StoreError | DuplicateKey string string

record db =
  db_connected :: bool
  users :: "user_doc list"
  cast_name :: "string \<Rightarrow> string"
  cast_username :: "string \<Rightarrow> string"
  cast_email :: "string \<Rightarrow> string"

definition User_findById :: "db \<Rightarrow> string \<Rightarrow> store_error + user_doc option" where
  "User_findById d i =
     (if \<not> db_connected d then Inl StoreError
      else Inr (find (\<lambda>u. uid u = i) (users d)))"

definition User_findOne_email :: "db \<Rightarrow> string \<Rightarrow> store_error + user_doc option" where
  "User_findOne_email d e =
     (if \<not> db_connected d then Inl StoreError
      else Inr (find (\<lambda>u. email u = cast_email d e) (users d)))"


text \<open>
  \<^verbatim>\<open>user.save()\<close> and \<^verbatim>\<open>findByIdAndUpdate\<close> write the modified paths of one document:
  \<open>f\<close> is the modification, applied to the stored document with that \<^verbatim>\<open>_id\<close>.
\<close>

definition save :: "db \<Rightarrow> string \<Rightarrow> (user_doc \<Rightarrow> user_doc) \<Rightarrow> store_error + db" where
  "save d i f =
     (if \<not> db_connected d then Inl StoreError
      else Inr (d\<lparr>users := map (\<lambda>x. if uid x = i then f x else x) (users d)\<rparr>))"


text \<open>The schema declares \<^verbatim>\<open>password\<close> with \<^verbatim>\<open>select: false\<close>.\<close>

definition select_default :: "user_doc \<Rightarrow> user_doc" where
  "select_default u = u\<lparr>password := None\<rparr>"

text \<open>\<^verbatim>\<open>.select('-password -emailVerificationToken -passwordResetToken')\<close>\<close>

definition select_public :: "user_doc \<Rightarrow> user_doc" where
  "select_public u =
     u\<lparr>password := None, emailVerificationToken := None, passwordResetToken := None\<rparr>"

text \<open>
  \<^verbatim>\<open>User.findByIdAndUpdate(id, { lastActive: new Date() }).catch(() => {})\<close>:
  detached, and an error is dropped.
\<close>

definition touch_lastActive :: "db \<Rightarrow> string \<Rightarrow> nat \<Rightarrow> db" where
  "touch_lastActive d i now =
     (if \<not> db_connected d then d
      else d\<lparr>users := map (\<lambda>x. if uid x = i then x\<lparr>lastActive := now\<rparr> else x) (users d)\<rparr>)"

subsection \<open>Requests, responses, outcomes\<close>

text \<open>
  The \<^verbatim>\<open>Authorization\<close> header: absent, a string that does not start with
  \<^verbatim>\<open>'Bearer '\<close>, or \<^verbatim>\<open>'Bearer '\<close> followed by a raw token (\<^verbatim>\<open>substring(7)\<close>).
\<close>

datatype auth_header = NoHeader | NotBearer string | Bearer token

record request =
  header_authorization :: auth_header
  ip :: string
  header_userAgent :: "string option"
  header_cfIpCountry :: "string option"
  body_firstName :: string
  body_lastName :: string
  body_username :: string
  body_email :: string
  body_password :: string
  body_refreshToken :: "token option"
  body_status :: status
  params_id :: string
  user :: "user_doc option"
  req_refreshToken :: "token option"

record token_envelope =
  env_accessToken :: token
  env_refreshToken :: token
  env_expiresIn :: nat

record user_view =
  v_id :: string
  v_firstName :: string
  v_lastName :: string
  v_username :: string
  v_email :: string
  v_role :: role
  v_isEmailVerified :: bool

record response =
  httpStatus :: nat
  success :: bool
  error :: "string option"
  message :: "string option"
  code :: "string option"
  retryAfter :: "nat option"
  data_user :: "user_view option"
  data_tokens :: "token_envelope option"

text \<open>
  What reaches the global error handler: an \<^verbatim>\<open>AppError\<close> (message, status, code), the
  store's duplicate-key error (field, value), which the handler answers with 400
  \<^verbatim>\<open>DUPLICATE_FIELD\<close>, or any other error.
\<close>

datatype app_error = AppError string nat string | DuplicateKeyError string string | Unexpected

datatype outcome = Responded response | Next request | Raised app_error

record world =
  redis :: redis_client
  mongo :: db

definition failure :: "nat \<Rightarrow> string \<Rightarrow> string option \<Rightarrow> string \<Rightarrow> response" where
  "failure st err msg c =
     \<lparr> httpStatus = st, success = False, error = Some err, message = msg, code = Some c,
       retryAfter = None, data_user = None, data_tokens = None \<rparr>"

definition ok :: "nat \<Rightarrow> string \<Rightarrow> response" where
  "ok st msg =
     \<lparr> httpStatus = st, success = True, error = None, message = Some msg, code = None,
       retryAfter = None, data_user = None, data_tokens = None \<rparr>"

subsection \<open>\<^verbatim>\<open>middleware/auth.js\<close>: authenticate and optionalAuth\<close>

text \<open>
  The end of \<^verbatim>\<open>authenticate\<close>, once a user object has been resolved: the status
  check, the identity attached to the request, the detached last-active update.
\<close>

definition attach :: "nat \<Rightarrow> world \<Rightarrow> request \<Rightarrow> user_doc \<Rightarrow> world \<times> outcome" where
  "attach now w req u =
     (if status u \<noteq> Active
      then (w, Responded (failure 403 ''Account suspended''
                  (Some (''Your account is '' @ status_str (status u))) ''ACCOUNT_SUSPENDED''))
      else (w\<lparr>mongo := touch_lastActive (mongo w) (uid u) now\<rparr>,
            Next (req\<lparr>user := Some u\<rparr>)))"

text \<open>
  The cache-miss branch: the lookup in the user collection, and the cache write. A failed
  store call is caught by the outer \<^verbatim>\<open>catch\<close> of \<^verbatim>\<open>authenticate\<close>.
\<close>

definition authenticate_lookup :: "nat \<Rightarrow> world \<Rightarrow> request \<Rightarrow> string \<Rightarrow> world \<times> outcome" where
  "authenticate_lookup now w req userId =
     (case User_findById (mongo w) userId of
        Inl _ \<Rightarrow>
          (w, Responded (failure 500 ''Internal server error''
                 (Some ''Authentication service temporarily unavailable'') ''AUTH_SERVICE_ERROR''))
      | Inr None \<Rightarrow>
          (w, Responded (failure 401 ''User not found''
                 (Some ''Token is valid but user no longer exists'') ''USER_NOT_FOUND''))
      | Inr (Some found) \<Rightarrow>
          attach now
            (w\<lparr>redis := fst (cacheDiasporaData (redis w) now (uid found) (select_public found))\<rparr>)
            req (select_public found))"

text \<open>
  \<^verbatim>\<open>authenticate\<close>. A verification error with any other name than the two it answers is
  rethrown and reaches the outer \<^verbatim>\<open>catch\<close>. A cached value that is not a user document
  has no \<^verbatim>\<open>status\<close>, which differs from \<^verbatim>\<open>'active'\<close>.
\<close>

definition authenticate :: "config \<Rightarrow> nat \<Rightarrow> world \<Rightarrow> request \<Rightarrow> world \<times> outcome" where
  "authenticate cfg now w req =
     (case header_authorization req of
        NoHeader \<Rightarrow>
          (w, Responded (failure 401 ''Access denied'' (Some ''No valid token provided'') ''NO_TOKEN''))
      | NotBearer _ \<Rightarrow>
          (w, Responded (failure 401 ''Access denied'' (Some ''No valid token provided'') ''NO_TOKEN''))
      | Bearer tok \<Rightarrow>
          (case jwt_verify tok (jwt_secret cfg) [jwt_algorithm] now of
             Inl TokenExpiredError \<Rightarrow>
               (w, Responded (failure 401 ''Token expired''
                      (Some ''Please refresh your token'') ''TOKEN_EXPIRED''))
           | Inl JsonWebTokenError \<Rightarrow>
               (w, Responded (failure 401 ''Invalid token''
                      (Some ''Token is malformed or invalid'') ''INVALID_TOKEN''))
           | Inl NotBeforeError \<Rightarrow>
               (w, Responded (failure 500 ''Internal server error''
                      (Some ''Authentication service temporarily unavailable'')
                      ''AUTH_SERVICE_ERROR''))
           | Inr decoded \<Rightarrow>
               (if redisUtils_exists (redis w) now (BlacklistKey tok)
                then (w, Responded (failure 401 ''Token revoked''
                            (Some ''This token has been revoked'') ''TOKEN_REVOKED''))
                else (case getDiasporaData (redis w) now (payload_userId decoded) of
                        Some (JsonUser cachedUser) \<Rightarrow> attach now w req cachedUser
                      | Some other \<Rightarrow>
                          (if truthy other
                           then (w, Responded (failure 403 ''Account suspended''
                                       (Some ''Your account is undefined'') ''ACCOUNT_SUSPENDED''))
                           else authenticate_lookup now w req (payload_userId decoded))
                      | None \<Rightarrow> authenticate_lookup now w req (payload_userId decoded)))))"

text \<open>
  \<^verbatim>\<open>optionalAuth\<close> hands \<^verbatim>\<open>authenticate\<close> the callback
  \<^verbatim>\<open>(err) => { if (err) req.user = null; next(); }\<close>. \<^verbatim>\<open>authenticate\<close> calls its
  third argument in one place only, as \<^verbatim>\<open>next()\<close>, after it has attached the identity;
  on every failure it sends the response itself and returns.
\<close>

definition optionalAuth_callback :: "app_error option \<Rightarrow> request \<Rightarrow> outcome" where
  "optionalAuth_callback err req =
     (if err \<noteq> None then Next (req\<lparr>user := None\<rparr>) else Next req)"

definition optionalAuth :: "config \<Rightarrow> nat \<Rightarrow> world \<Rightarrow> request \<Rightarrow> world \<times> outcome" where
  "optionalAuth cfg now w req =
     (case header_authorization req of
        NoHeader \<Rightarrow> (w, Next (req\<lparr>user := None\<rparr>))
      | NotBearer _ \<Rightarrow> (w, Next (req\<lparr>user := None\<rparr>))
      | Bearer _ \<Rightarrow>
          (case authenticate cfg now w req of
             (w', Next req') \<Rightarrow> (w', optionalAuth_callback None req')
           | (w', Responded r) \<Rightarrow> (w', Responded r)
           | (w', Raised e) \<Rightarrow> (w', Raised e)))"

subsection \<open>\<^verbatim>\<open>middleware/auth.js\<close>: the per-user rate limiter\<close>

text \<open>
  \<^verbatim>\<open>userRateLimit(windowMs, maxRequests)\<close>. The counter key is built from the user
  id alone. The \<^verbatim>\<open>X-RateLimit-*\<close> headers set on a passing response and the
  message of the 429 response are left out.
\<close>

definition too_many :: "nat \<Rightarrow> response" where
  "too_many windowMs =
     (failure 429 ''Rate limit exceeded'' None ''USER_RATE_LIMIT_EXCEEDED'')
       \<lparr>retryAfter := Some (windowMs div 1000)\<rparr>"

definition userRateLimit ::
  "nat \<Rightarrow> nat \<Rightarrow> nat \<Rightarrow> world \<Rightarrow> request \<Rightarrow> world \<times> outcome" where
  "userRateLimit windowMs maxRequests now w req =
     (case user req of
        None \<Rightarrow> (w, Next req)
      | Some u \<Rightarrow>
          (case redisUtils_incr (redis w) now (RateLimitUserKey (uid u)) (windowMs div 1000) of
             (c', requests) \<Rightarrow>
               (if requests > int maxRequests
                then (w\<lparr>redis := c'\<rparr>, Responded (too_many windowMs))
                else (w\<lparr>redis := c'\<rparr>, Next req))))"

subsection \<open>\<^verbatim>\<open>middleware/auth.js\<close>: refresh-token validation and blacklisting\<close>

datatype token_type = AccessType | RefreshType

definition blacklistToken ::
  "redis_client \<Rightarrow> nat \<Rightarrow> token \<Rightarrow> token_type \<Rightarrow> redis_client \<times> bool" where
  "blacklistToken c now tok type =
     (let key = (if type = RefreshType then BlacklistRefreshKey tok else BlacklistKey tok);
          ttl = (if type = RefreshType then 30 * 24 * 60 * 60 else 7 * 24 * 60 * 60)
      in (fst (redisUtils_set c now key (JsonString ''blacklisted'') ttl), True))"

definition validateRefreshToken ::
  "config \<Rightarrow> nat \<Rightarrow> world \<Rightarrow> request \<Rightarrow> world \<times> outcome" where
  "validateRefreshToken cfg now w req =
     (case body_refreshToken req of
        None \<Rightarrow>
          (w, Responded (failure 400 ''Refresh token required'' None ''REFRESH_TOKEN_REQUIRED''))
      | Some rt \<Rightarrow>
          (if rt = Garbage []
           then (w, Responded (failure 400 ''Refresh token required'' None
                       ''REFRESH_TOKEN_REQUIRED''))
           else (case jwt_verify rt (jwt_refreshSecret cfg) [jwt_algorithm] now of
                   Inl _ \<Rightarrow>
                     (w, Responded (failure 401 ''Invalid refresh token'' None
                            ''INVALID_REFRESH_TOKEN''))
                 | Inr decoded \<Rightarrow>
                     (if redisUtils_exists (redis w) now (BlacklistRefreshKey rt)
                      then (w, Responded (failure 401 ''Refresh token revoked'' None
                                  ''REFRESH_TOKEN_REVOKED''))
                      else (case User_findById (mongo w) (payload_userId decoded) of
                              Inl _ \<Rightarrow>
                                (w, Responded (failure 500 ''Internal server error'' None
                                       ''REFRESH_TOKEN_SERVICE_ERROR''))
                            | Inr None \<Rightarrow>
                                (w, Responded (failure 401 ''Invalid refresh token'' None
                                       ''INVALID_REFRESH_TOKEN''))
                            | Inr (Some u) \<Rightarrow>
                                (if status u \<noteq> Active
                                 then (w, Responded (failure 401 ''Invalid refresh token'' None
                                             ''INVALID_REFRESH_TOKEN''))
                                 else (w, Next (req\<lparr>user := Some (select_default u),
                                                     req_refreshToken := Some rt\<rparr>))))))))"

subsection \<open>\<^verbatim>\<open>controllers/authController.js\<close>\<close>

text \<open>
  A controller is wrapped in \<^verbatim>\<open>catchAsync\<close>: an \<^verbatim>\<open>AppError\<close> it throws, or any other
  error (a failed store call, a property read on \<^verbatim>\<open>undefined\<close>), goes to the global
  error handler and is the outcome \<open>Raised\<close>. The messages are the UTF-8 bytes of the
  source's strings.
\<close>

definition msg_invalid_credentials :: string where
  "msg_invalid_credentials =
     ''Ge'' @ [CHR 0xC3, CHR 0xA7] @ ''ersiz e-posta veya '' @ [CHR 0xC5, CHR 0x9F] @ ''ifre''"

definition msg_account_status :: "status \<Rightarrow> string" where
  "msg_account_status st =
     ''Hesab'' @ [CHR 0xC4, CHR 0xB1] @ ''n'' @ [CHR 0xC4, CHR 0xB1] @ ''z '' @ status_str st
       @ '' durumunda''"



definition msg_logged_out :: string where
  "msg_logged_out =
     ''Ba'' @ [CHR 0xC5, CHR 0x9F] @ ''ar'' @ [CHR 0xC4, CHR 0xB1] @ ''yla ''
       @ [CHR 0xC3, CHR 0xA7, CHR 0xC4, CHR 0xB1] @ ''k'' @ [CHR 0xC4, CHR 0xB1, CHR 0xC5, CHR 0x9F]
       @ '' yap'' @ [CHR 0xC4, CHR 0xB1] @ ''ld'' @ [CHR 0xC4, CHR 0xB1]"

definition msg_reset_if_registered :: string where
  "msg_reset_if_registered =
     ''E'' @ [CHR 0xC4, CHR 0x9F] @ ''er bu e-posta adresi sistemde kay'' @ [CHR 0xC4, CHR 0xB1]
       @ ''tl'' @ [CHR 0xC4, CHR 0xB1] @ ''ysa, '' @ [CHR 0xC5, CHR 0x9F] @ ''ifre s''
       @ [CHR 0xC4, CHR 0xB1] @ ''f'' @ [CHR 0xC4, CHR 0xB1] @ ''rlama ba'' @ [CHR 0xC4, CHR 0x9F]
       @ ''lant'' @ [CHR 0xC4, CHR 0xB1] @ ''s'' @ [CHR 0xC4, CHR 0xB1] @ '' g''
       @ [CHR 0xC3, CHR 0xB6] @ ''nderildi''"

definition msg_reset_sent :: string where
  "msg_reset_sent =
     [CHR 0xC5, CHR 0x9E] @ ''ifre s'' @ [CHR 0xC4, CHR 0xB1] @ ''f'' @ [CHR 0xC4, CHR 0xB1]
       @ ''rlama ba'' @ [CHR 0xC4, CHR 0x9F] @ ''lant'' @ [CHR 0xC4, CHR 0xB1] @ ''s''
       @ [CHR 0xC4, CHR 0xB1] @ '' e-posta adresinize g'' @ [CHR 0xC3, CHR 0xB6] @ ''nderildi''"

definition msg_user_not_found :: string where
  "msg_user_not_found =
     ''Kullan'' @ [CHR 0xC4, CHR 0xB1] @ ''c'' @ [CHR 0xC4, CHR 0xB1] @ '' bulunamad''
       @ [CHR 0xC4, CHR 0xB1]"

definition msg_status_updated :: string where
  "msg_status_updated =
     ''Kullan'' @ [CHR 0xC4, CHR 0xB1] @ ''c'' @ [CHR 0xC4, CHR 0xB1] @ '' durumu g''
       @ [CHR 0xC3, CHR 0xBC] @ ''ncellendi''"

definition view :: "user_doc \<Rightarrow> user_view" where
  "view u =
     \<lparr> v_id = uid u, v_firstName = firstName u, v_lastName = lastName u,
       v_username = username u, v_email = email u, v_role = role u,
       v_isEmailVerified = isEmailVerified u \<rparr>"

text \<open>
  \<^verbatim>\<open>createSendTokens\<close>. The assignment \<^verbatim>\<open>user.password = undefined\<close> changes the
  in-memory document only, after every caller's cache write; the response lists its
  fields one by one.
\<close>

definition createSendTokens ::
  "config \<Rightarrow> nat \<Rightarrow> world \<Rightarrow> user_doc \<Rightarrow> nat \<Rightarrow> world \<times> outcome" where
  "createSendTokens cfg now w u statusCode =
     (let accessToken = generateAuthToken cfg now u;
          newRefreshToken = generateRefreshToken cfg now u;
          c' = fst (redisUtils_set (redis w) now (RefreshTokenKey (uid u))
                      (JsonToken newRefreshToken) (30 * 24 * 60 * 60))
      in (w\<lparr>redis := c'\<rparr>,
          Responded ((ok statusCode ''Authentication successful'')
            \<lparr> data_user := Some (view u),
              data_tokens := Some \<lparr> env_accessToken = accessToken,
                                    env_refreshToken = newRefreshToken,
                                    env_expiresIn = jwt_expiresIn cfg \<rparr> \<rparr>)))"




text \<open>
  \<^verbatim>\<open>login\<close>. The query is \<^verbatim>\<open>User.findOne({ email }).select('+password')\<close>, so the
  document in hand carries the password hash. \<open>record_login\<close> is what the controller
  changes on it: the login history, capped at 10 entries, and \<^verbatim>\<open>lastActive\<close>.
\<close>

definition record_login :: "nat \<Rightarrow> request \<Rightarrow> user_doc \<Rightarrow> user_doc" where
  "record_login now req u =
     u\<lparr>loginHistory :=
         take 10 (\<lparr> lr_timestamp = now, lr_ip = ip req,
                    lr_userAgent = header_userAgent req,
                    lr_location = (case header_cfIpCountry req of
                                     None \<Rightarrow> ''Unknown''
                                   | Some l \<Rightarrow> (if l = [] then ''Unknown'' else l)) \<rparr>
                  # loginHistory u),
       lastActive := now\<rparr>"

definition login :: "config \<Rightarrow> nat \<Rightarrow> world \<Rightarrow> request \<Rightarrow> world \<times> outcome" where
  "login cfg now w req =
     (case User_findOne_email (mongo w) (body_email req) of
        Inl _ \<Rightarrow> (w, Raised Unexpected)
      | Inr None \<Rightarrow> (w, Raised (AppError msg_invalid_credentials 401 ''INVALID_CREDENTIALS''))
      | Inr (Some found) \<Rightarrow>
          (if comparePassword found (body_password req) = None
           then (w, Raised Unexpected)
           else if comparePassword found (body_password req) = Some False
           then (w, Raised (AppError msg_invalid_credentials 401 ''INVALID_CREDENTIALS''))
           else if status found \<noteq> Active
           then (w, Raised (AppError (msg_account_status (status found)) 403
                              ''ACCOUNT_SUSPENDED''))
           else
             (case save (mongo w) (uid found) (record_login now req) of
                Inl _ \<Rightarrow> (w, Raised Unexpected)
              | Inr d' \<Rightarrow>
                  createSendTokens cfg now
                    (w\<lparr>mongo := d',
                       redis := fst (cacheDiasporaData (redis w) now (uid found)
                                       (record_login now req found))\<rparr>)
                    (record_login now req found) 200)))"

text \<open>
  \<^verbatim>\<open>refreshToken\<close>, mounted after \<^verbatim>\<open>validateRefreshToken\<close>, which sets \<^verbatim>\<open>req.user\<close>
  and \<^verbatim>\<open>req.refreshToken\<close>.
\<close>

definition refreshToken :: "config \<Rightarrow> nat \<Rightarrow> world \<Rightarrow> request \<Rightarrow> world \<times> outcome" where
  "refreshToken cfg now w req =
     (case user req of
        None \<Rightarrow> (w, Raised Unexpected)
      | Some u \<Rightarrow>
          (case req_refreshToken req of
             None \<Rightarrow> (w, Raised Unexpected)
           | Some oldRefreshToken \<Rightarrow>
               (let accessToken = generateAuthToken cfg now u;
                    newRefreshToken = generateRefreshToken cfg now u;
                    c1 = fst (blacklistToken (redis w) now oldRefreshToken RefreshType);
                    c2 = fst (redisUtils_set c1 now (RefreshTokenKey (uid u))
                                (JsonToken newRefreshToken) (30 * 24 * 60 * 60))
                in (w\<lparr>redis := c2\<rparr>,
                    Responded ((ok 200 ''Tokens refreshed successfully'')
                      \<lparr> data_tokens := Some \<lparr> env_accessToken = accessToken,
                                              env_refreshToken = newRefreshToken,
                                              env_expiresIn = jwt_expiresIn cfg \<rparr> \<rparr>)))))"

text \<open>
  \<^verbatim>\<open>logout\<close>, mounted after \<^verbatim>\<open>authenticate\<close>. The token is
  \<^verbatim>\<open>req.header('Authorization').substring(7)\<close>.
\<close>

definition logout_token :: "nat \<Rightarrow> world \<Rightarrow> request \<Rightarrow> token \<Rightarrow> world \<times> outcome" where
  "logout_token now w req tok =
     (let c1 = fst (blacklistToken (redis w) now tok AccessType)
      in (case user req of
            None \<Rightarrow> (w\<lparr>redis := c1\<rparr>, Raised Unexpected)
          | Some u \<Rightarrow>
              (let c2 = fst (redisUtils_del c1 (RefreshTokenKey (uid u)));
                   c3 = fst (redisUtils_del c2 (DiasporaKey (uid u)))
               in (w\<lparr>redis := c3\<rparr>, Responded (ok 200 msg_logged_out)))))"

definition logout :: "nat \<Rightarrow> world \<Rightarrow> request \<Rightarrow> world \<times> outcome" where
  "logout now w req =
     (case header_authorization req of
        NoHeader \<Rightarrow> (w, Raised Unexpected)
      | NotBearer s \<Rightarrow> logout_token now w req (Garbage (drop 7 s))
      | Bearer tok \<Rightarrow> logout_token now w req tok)"

text \<open>
  \<^verbatim>\<open>forgotPassword\<close>. \<open>resetToken\<close> is the value of
  \<^verbatim>\<open>crypto.randomBytes(32).toString('hex')\<close>.
\<close>

definition forgotPassword :: "nat \<Rightarrow> string \<Rightarrow> world \<Rightarrow> request \<Rightarrow> world \<times> outcome" where
  "forgotPassword now resetToken w req =
     (case User_findOne_email (mongo w) (body_email req) of
        Inl _ \<Rightarrow> (w, Raised Unexpected)
      | Inr None \<Rightarrow> (w, Responded (ok 200 msg_reset_if_registered))
      | Inr (Some found) \<Rightarrow>
          (case save (mongo w) (uid found)
                  (\<lambda>x. x\<lparr>passwordResetToken := Some (Sha256Hex resetToken),
                         passwordResetExpires := Some (now + 30 * 60)\<rparr>) of
             Inl _ \<Rightarrow> (w, Raised Unexpected)
           | Inr d' \<Rightarrow> (w\<lparr>mongo := d'\<rparr>, Responded (ok 200 msg_reset_sent))))"

text \<open>\<^verbatim>\<open>adminUpdateUserStatus\<close>: \<^verbatim>\<open>findByIdAndUpdate\<close>, then the cache entry is deleted.\<close>

definition adminUpdateUserStatus :: "world \<Rightarrow> request \<Rightarrow> world \<times> outcome" where
  "adminUpdateUserStatus w req =
     (case User_findById (mongo w) (params_id req) of
        Inl _ \<Rightarrow> (w, Raised Unexpected)
      | Inr None \<Rightarrow> (w, Raised (AppError msg_user_not_found 404 ''USER_NOT_FOUND''))
      | Inr (Some found) \<Rightarrow>
          (case save (mongo w) (uid found) (\<lambda>x. x\<lparr>status := body_status req\<rparr>) of
             Inl _ \<Rightarrow> (w, Raised Unexpected)
           | Inr d' \<Rightarrow>
               (w\<lparr>mongo := d', redis := fst (redisUtils_del (redis w) (DiasporaKey (uid found)))\<rparr>,
                Responded ((ok 200 msg_status_updated)
                  \<lparr>data_user := Some (view (found\<lparr>status := body_status req\<rparr>))\<rparr>))))"

subsection \<open>\<^verbatim>\<open>routes/auth.js\<close>: the public routes\<close>

text \<open>
  The routes mounted before \<^verbatim>\<open>router.use(authenticate)\<close>, and the limiter each one
  declares as its first handler: \<^verbatim>\<open>userRateLimit(windowMs, maxRequests)\<close>.
\<close>

datatype public_route =
    Register | Login | RefreshToken | ForgotPassword | ResetPassword | VerifyEmail
  | ResendVerification

fun route_limit :: "public_route \<Rightarrow> (nat \<times> nat) option" where
  "route_limit Register = Some (15 * 60 * 1000, 5)"
| "route_limit Login = Some (15 * 60 * 1000, 10)"
| "route_limit RefreshToken = Some (60 * 1000, 5)"
| "route_limit ForgotPassword = Some (60 * 60 * 1000, 3)"
| "route_limit ResetPassword = Some (60 * 60 * 1000, 5)"
| "route_limit VerifyEmail = None"
| "route_limit ResendVerification = Some (60 * 60 * 1000, 3)"

definition route_limiter ::
  "public_route \<Rightarrow> nat \<Rightarrow> world \<Rightarrow> request \<Rightarrow> world \<times> outcome" where
  "route_limiter r now w req =
     (case route_limit r of
        None \<Rightarrow> (w, Next req)
      | Some (windowMs, maxRequests) \<Rightarrow> userRateLimit windowMs maxRequests now w req)"

text \<open>
  \<^verbatim>\<open>router.post('/refresh-token', userRateLimit(60 * 1000, 5), validateRefreshToken,
  authController.refreshToken)\<close>: the handlers run in order, each one only if the one
  before it called \<^verbatim>\<open>next()\<close>.
\<close>

definition refresh_token_route ::
  "config \<Rightarrow> nat \<Rightarrow> world \<Rightarrow> request \<Rightarrow> world \<times> outcome" where
  "refresh_token_route cfg now w req =
     (case route_limiter RefreshToken now w req of
        (w1, Next req1) \<Rightarrow>
          (case validateRefreshToken cfg now w1 req1 of
             (w2, Next req2) \<Rightarrow> refreshToken cfg now w2 req2
           | (w2, Responded r) \<Rightarrow> (w2, Responded r)
           | (w2, Raised e) \<Rightarrow> (w2, Raised e))
      | (w1, Responded r) \<Rightarrow> (w1, Responded r)
      | (w1, Raised e) \<Rightarrow> (w1, Raised e))"

subsection \<open>\<^verbatim>\<open>routes/auth.js\<close>: the protected routes\<close>

text \<open>
  The routes mounted after \<^verbatim>\<open>router.use(authenticate)\<close>, and the limiter each one
  declares, with the comment the source gives it:
  \<^verbatim>\<open>/change-password\<close>, \<^verbatim>\<open>userRateLimit(60 * 60 * 1000, 5)\<close>, ``5 attempts per hour'';
  \<^verbatim>\<open>/deactivate-account\<close>, \<^verbatim>\<open>userRateLimit(24 * 60 * 60 * 1000, 1)\<close>, ``1 attempt per day'';
  \<^verbatim>\<open>/reactivate-account\<close>, \<^verbatim>\<open>userRateLimit(24 * 60 * 60 * 1000, 3)\<close>, ``3 attempts per day''.
\<close>

datatype protected_route =
    Logout | LogoutAll | Me | ChangePassword | DeactivateAccount | ReactivateAccount

fun protected_route_limit :: "protected_route \<Rightarrow> (nat \<times> nat) option" where
  "protected_route_limit Logout = None"
| "protected_route_limit LogoutAll = None"
| "protected_route_limit Me = None"
| "protected_route_limit ChangePassword = Some (60 * 60 * 1000, 5)"
| "protected_route_limit DeactivateAccount = Some (24 * 60 * 60 * 1000, 1)"
| "protected_route_limit ReactivateAccount = Some (24 * 60 * 60 * 1000, 3)"

definition protected_route_limiter ::
  "protected_route \<Rightarrow> nat \<Rightarrow> world \<Rightarrow> request \<Rightarrow> world \<times> outcome" where
  "protected_route_limiter r now w req =
     (case protected_route_limit r of
        None \<Rightarrow> (w, Next req)
      | Some (windowMs, maxRequests) \<Rightarrow> userRateLimit windowMs maxRequests now w req)"

section \<open>Vocabulary of the properties\<close>

text \<open>What an outcome shows to the client and to the next handler.\<close>

fun response_code :: "outcome \<Rightarrow> string option" where
  "response_code (Responded r) = code r"
| "response_code (Next _) = None"
| "response_code (Raised _) = None"

fun response_status :: "outcome \<Rightarrow> nat option" where
  "response_status (Responded r) = Some (httpStatus r)"
| "response_status (Next _) = None"
| "response_status (Raised _) = None"

fun attached :: "outcome \<Rightarrow> user_doc option" where
  "attached (Next req) = user req"
| "attached (Responded _) = None"
| "attached (Raised _) = None"

fun proceeds :: "outcome \<Rightarrow> bool" where
  "proceeds (Next _) = True"
| "proceeds (Responded _) = False"
| "proceeds (Raised _) = False"

text \<open>The Redis client answers commands.\<close>

definition reachable :: "redis_client \<Rightarrow> bool" where
  "reachable c = (isReady c \<and> \<not> failing c)"

text \<open>What the \<^verbatim>\<open>TTL\<close> command would report for a key at an instant.\<close>

definition ttl_of :: "redis_client \<Rightarrow> nat \<Rightarrow> rkey \<Rightarrow> nat option" where
  "ttl_of c now k =
     (case entries c k of
        Some (v, Some e) \<Rightarrow> (if now < e then Some (e - now) else None)
      | _ \<Rightarrow> None)"

text \<open>The time left until a token's own \<^verbatim>\<open>exp\<close>.\<close>

fun remaining_lifetime :: "token \<Rightarrow> nat \<Rightarrow> nat" where
  "remaining_lifetime (Jwt s a p iat exp) now = exp - now"
| "remaining_lifetime (Garbage _) now = 0"

text \<open>A token whose structure, algorithm and signature are valid for a secret.\<close>

fun signature_valid :: "string \<Rightarrow> token \<Rightarrow> bool" where
  "signature_valid secret (Jwt s a p iat exp) = (a = jwt_algorithm \<and> s = secret)"
| "signature_valid secret (Garbage _) = False"

fun expired :: "token \<Rightarrow> nat \<Rightarrow> bool" where
  "expired (Jwt s a p iat exp) now = (exp \<le> now)"
| "expired (Garbage _) now = False"

text \<open>The status the user collection holds for an id.\<close>

definition stored_status :: "db \<Rightarrow> string \<Rightarrow> status option" where
  "stored_status d i =
     (case User_findById d i of Inr (Some u) \<Rightarrow> Some (status u) | _ \<Rightarrow> None)"

subsection \<open>Histories of the Redis store\<close>

text \<open>
  The calls that change the store, one constructor for each call site of the backend:
  \<^verbatim>\<open>cacheDiasporaData(id, doc)\<close>; \<^verbatim>\<open>redisUtils.set(`refresh_token:${id}`, token, 30 days)\<close>;
  \<^verbatim>\<open>blacklistToken(token, type)\<close>; \<^verbatim>\<open>redisUtils.del\<close> of a \<^verbatim>\<open>refresh_token:\<close> or a
  \<^verbatim>\<open>diaspora:\<close> key; \<^verbatim>\<open>redisUtils.incr(`rate_limit:user:${id}`, ttl)\<close>. Between calls
  time passes and the connection comes and goes.
\<close>

datatype redis_call =
    CacheUser string user_doc
  | StoreRefreshToken string token
  | Blacklist token token_type
  | DelRefreshToken string
  | DelCache string
  | CountRequest string nat

datatype event = Elapse nat | Connection bool bool | Call redis_call

fun perform :: "redis_client \<Rightarrow> nat \<Rightarrow> redis_call \<Rightarrow> redis_client" where
  "perform c now (CacheUser i d) = fst (cacheDiasporaData c now i d)"
| "perform c now (StoreRefreshToken i tok) =
     fst (redisUtils_set c now (RefreshTokenKey i) (JsonToken tok) (30 * 24 * 60 * 60))"
| "perform c now (Blacklist tok ty) = fst (blacklistToken c now tok ty)"
| "perform c now (DelRefreshToken i) = fst (redisUtils_del c (RefreshTokenKey i))"
| "perform c now (DelCache i) = fst (redisUtils_del c (DiasporaKey i))"
| "perform c now (CountRequest i ttl) = fst (redisUtils_incr c now (RateLimitUserKey i) ttl)"

fun step :: "nat \<times> redis_client \<Rightarrow> event \<Rightarrow> nat \<times> redis_client" where
  "step (t, c) (Elapse n) = (t + n, c)"
| "step (t, c) (Connection r f) = (t, c\<lparr>isReady := r, failing := f\<rparr>)"
| "step (t, c) (Call x) = (t, perform c t x)"

definition run :: "nat \<times> redis_client \<Rightarrow> event list \<Rightarrow> nat \<times> redis_client" where
  "run s evs = foldl step s evs"

subsection \<open>A series of requests through one limiter\<close>

text \<open>
  The requests of one user reach \<^verbatim>\<open>userRateLimit(windowMs, maxRequests)\<close> at the given
  instants, one after the other; the outcomes are collected in order.
\<close>

fun serve :: "nat \<Rightarrow> nat \<Rightarrow> world \<Rightarrow> request \<Rightarrow> nat list \<Rightarrow> world \<times> outcome list" where
  "serve windowMs maxRequests w req [] = (w, [])"
| "serve windowMs maxRequests w req (t # ts) =
     (case userRateLimit windowMs maxRequests t w req of
        (w', out) \<Rightarrow>
          (case serve windowMs maxRequests w' req ts of
             (w'', outs) \<Rightarrow> (w'', out # outs)))"

subsection \<open>Sample data\<close>

definition alice :: user_doc where
  "alice =
     \<lparr> uid = ''u1'', firstName = ''Alice'', lastName = ''A'', username = ''alice'',
       email = ''a@x.com'', password = Some (bcrypt_hash ''Password123''), status = Active,
       role = RoleUser, isEmailVerified = False, emailVerificationToken = None,
       emailVerificationExpires = None, passwordResetToken = None,
       passwordResetExpires = None, lastActive = 0, loginHistory = [] \<rparr>"

text \<open>The schema's setters on ASCII strings, where they are easily written down.\<close>

definition lower_char :: "char \<Rightarrow> char" where
  "lower_char c =
     (case map_of (zip ''ABCDEFGHIJKLMNOPQRSTUVWXYZ'' ''abcdefghijklmnopqrstuvwxyz'') c of
        None \<Rightarrow> c
      | Some l \<Rightarrow> l)"

definition lower_ascii :: "string \<Rightarrow> string" where
  "lower_ascii s = map lower_char s"

definition trim_ascii :: "string \<Rightarrow> string" where
  "trim_ascii s =
     rev (dropWhile (\<lambda>c. c = CHR '' '') (rev (dropWhile (\<lambda>c. c = CHR '' '') s)))"

definition lower_trim_ascii :: "string \<Rightarrow> string" where
  "lower_trim_ascii s = lower_ascii (trim_ascii s)"

definition db0 :: db where
  "db0 =
     \<lparr> db_connected = True, users = [alice], cast_name = trim_ascii,
       cast_username = lower_trim_ascii, cast_email = lower_ascii \<rparr>"

definition redis0 :: redis_client where
  "redis0 = \<lparr> isReady = True, failing = False, entries = Map.empty \<rparr>"

definition world0 :: world where
  "world0 = \<lparr> redis = redis0, mongo = db0 \<rparr>"

definition req0 :: request where
  "req0 =
     \<lparr> header_authorization = NoHeader, ip = ''10.0.0.1'', header_userAgent = None,
       header_cfIpCountry = None, body_firstName = [], body_lastName = [],
       body_username = [], body_email = [], body_password = [], body_refreshToken = None,
       body_status = Active, params_id = [], user = None, req_refreshToken = None \<rparr>"

definition req_garbage :: request where
  "req_garbage = req0\<lparr>header_authorization := Bearer (Garbage ''not-a-jwt'')\<rparr>"

definition req_forgot_known :: request where
  "req_forgot_known = req0\<lparr>body_email := ''a@x.com''\<rparr>"

definition req_forgot_unknown :: request where
  "req_forgot_unknown = req0\<lparr>body_email := ''nobody@x.com''\<rparr>"

text \<open>Alice's tokens, issued at instant 0 under the default configuration.\<close>

definition tokA :: token where
  "tokA = generateAuthToken default_config 0 alice"

definition rtA :: token where
  "rtA = generateRefreshToken default_config 0 alice"

definition req_tokA :: request where
  "req_tokA = req0\<lparr>header_authorization := Bearer tokA\<rparr>"

text \<open>A request as \<^verbatim>\<open>authenticate\<close> hands it on: the header, and the identity attached.\<close>

definition req_alice :: request where
  "req_alice = req_tokA\<lparr>user := Some (select_public alice)\<rparr>"

definition req_login :: request where
  "req_login = req0\<lparr>body_email := ''a@x.com'', body_password := ''Password123''\<rparr>"

definition alice_logged_in :: user_doc where
  "alice_logged_in =
     alice\<lparr>loginHistory := [\<lparr> lr_timestamp = 0, lr_ip = ''10.0.0.1'', lr_userAgent = None,
                               lr_location = ''Unknown'' \<rparr>]\<rparr>"

definition world_logged_in :: world where
  "world_logged_in = fst (login default_config 0 world0 req_login)"





text \<open>
  Alice changes her password at instant 100 and asks to deactivate her account at
  instant 110.
\<close>

definition world_after_change_password :: world where
  "world_after_change_password = fst (protected_route_limiter ChangePassword 100 world0 req_alice)"

text \<open>
  A history that leaves a stale cache entry: Alice logs in at instant 0; an administrator
  suspends her while the Redis client is not ready, so the deletion of her cache entry is
  skipped; the client is ready again.
\<close>

definition req_suspend :: request where
  "req_suspend = req0\<lparr>params_id := ''u1'', body_status := Suspended\<rparr>"

definition world_suspended :: world where
  "world_suspended =
     fst (adminUpdateUserStatus
            (world_logged_in\<lparr>redis := (redis world_logged_in)\<lparr>isReady := False\<rparr>\<rparr>)
            req_suspend)"

definition stale_world :: world where
  "stale_world = world_suspended\<lparr>redis := (redis world_suspended)\<lparr>isReady := True\<rparr>\<rparr>"

text \<open>Alice suspended in the user collection, nothing cached.\<close>

definition world_alice_suspended :: world where
  "world_alice_suspended =
     world0\<lparr>mongo := db0\<lparr>users := [alice\<lparr>status := Suspended\<rparr>]\<rparr>\<rparr>"

text \<open>The Redis client not ready.\<close>

definition world_down :: world where
  "world_down = world0\<lparr>redis := redis0\<lparr>isReady := False\<rparr>\<rparr>"

definition req_refresh :: request where
  "req_refresh = req0\<lparr>body_refreshToken := Some rtA\<rparr>"

definition req_refresh_with_access :: request where
  "req_refresh_with_access = req0\<lparr>body_refreshToken := Some tokA\<rparr>"

definition req_validated :: request where
  "req_validated = req_alice\<lparr>req_refreshToken := Some rtA\<rparr>"

text \<open>A configuration with \<^verbatim>\<open>JWT_EXPIRES_IN=30d\<close>, and Alice's access token under it.\<close>

definition config30 :: config where
  "config30 = default_config\<lparr>jwt_expiresIn := 30 * 24 * 60 * 60\<rparr>"

definition tok30 :: token where
  "tok30 = generateAuthToken config30 0 alice"

definition req_tok30 :: request where
  "req_tok30 = req0\<lparr>header_authorization := Bearer tok30\<rparr>"

definition req_logout30 :: request where
  "req_logout30 = req_tok30\<lparr>user := Some (select_public alice)\<rparr>"

definition world_logged_out30 :: world where
  "world_logged_out30 = fst (logout 0 world0 req_logout30)"

text \<open>After Alice's logout at instant 1000: some calls, and 5000 seconds.\<close>

definition later :: "nat \<times> redis_client" where
  "later =
     run (1000, redis (fst (logout 1000 world0 req_alice)))
       [Call (CacheUser ''u1'' alice), Elapse 5000, Call (DelCache ''u1''),
        Call (CountRequest ''u1'' 60)]"

section \<open>Facts about the model\<close>

subsection \<open>Sample data, evaluated\<close>

lemma tokA_eq:
  "tokA = Jwt ''fallback-secret-key-change-in-production'' ''HS256''
            (AccessPayload ''u1'' ''a@x.com'' ''alice'' RoleUser) 0 604800"
  by (simp add: tokA_def generateAuthToken_def default_config_def alice_def jwt_algorithm_def)

lemma rtA_eq: "rtA = Jwt ''fallback-refresh-secret'' ''HS256'' (RefreshPayload ''u1'') 0 2592000"
  by (simp add: rtA_def generateRefreshToken_def default_config_def alice_def jwt_algorithm_def)

lemma tok30_eq:
  "tok30 = Jwt ''fallback-secret-key-change-in-production'' ''HS256''
             (AccessPayload ''u1'' ''a@x.com'' ''alice'' RoleUser) 0 2592000"
  by (simp add: tok30_def config30_def generateAuthToken_def default_config_def alice_def
      jwt_algorithm_def)

lemma verify_tokA:
  "jwt_verify tokA (jwt_secret default_config) [jwt_algorithm] 60
     = Inr (AccessPayload ''u1'' ''a@x.com'' ''alice'' RoleUser)"
  by (simp add: tokA_eq default_config_def jwt_algorithm_def)

lemma db0_fields [simp]:
  "db_connected db0" "users db0 = [alice]" "cast_name db0 = trim_ascii"
  "cast_username db0 = lower_trim_ascii" "cast_email db0 = lower_ascii"
  by (simp_all add: db0_def)

lemma lower_ascii_samples:
  "lower_ascii ''a@x.com'' = ''a@x.com''" "lower_ascii ''A@X.COM'' = ''a@x.com''"
  "lower_ascii ''nobody@x.com'' = ''nobody@x.com''" "lower_ascii ''b@x.com'' = ''b@x.com''"
  "lower_trim_ascii ''bob'' = ''bob''" "trim_ascii ''Bob'' = ''Bob''" "trim_ascii ''B'' = ''B''"
  by (simp_all add: lower_ascii_def lower_char_def lower_trim_ascii_def trim_ascii_def)


lemma world_logged_in_eq:
  "world_logged_in =
     \<lparr> redis = \<lparr> isReady = True, failing = False,
                 entries = [DiasporaKey ''u1'' \<mapsto> (JsonUser alice_logged_in, Some 1800),
                            RefreshTokenKey ''u1'' \<mapsto> (JsonToken rtA, Some 2592000)] \<rparr>,
       mongo = db0\<lparr>users := [alice_logged_in]\<rparr> \<rparr>"
  by (simp add: world_logged_in_def login_def req_login_def req0_def world0_def redis0_def
      User_findOne_email_def lower_ascii_samples alice_def comparePassword_def save_def
      cacheDiasporaData_def
      createSendTokens_def redisUtils_set_def client_setEx_def cache_ttl_user_def
      alice_logged_in_def rtA_def generateRefreshToken_def record_login_def Let_def)

lemma stale_world_eq:
  "stale_world =
     \<lparr> redis = \<lparr> isReady = True, failing = False,
                 entries = [DiasporaKey ''u1'' \<mapsto> (JsonUser alice_logged_in, Some 1800),
                            RefreshTokenKey ''u1'' \<mapsto> (JsonToken rtA, Some 2592000)] \<rparr>,
       mongo = db0\<lparr>users := [alice_logged_in\<lparr>status := Suspended\<rparr>]\<rparr> \<rparr>"
  by (simp add: stale_world_def world_suspended_def world_logged_in_eq adminUpdateUserStatus_def
      req_suspend_def req0_def User_findById_def alice_logged_in_def alice_def save_def
      redisUtils_del_def)

subsection \<open>\<^verbatim>\<open>redisUtils\<close>\<close>

lemma redisUtils_set_entries:
  "entries (fst (redisUtils_set c now k v ttl)) k'
     = (if reachable c \<and> k' = k then Some (v, Some (now + ttl)) else entries c k')"
  by (simp add: reachable_def redisUtils_set_def client_setEx_def)

lemma redisUtils_del_entries:
  "entries (fst (redisUtils_del c k)) k' = (if reachable c \<and> k' = k then None else entries c k')"
  by (simp add: reachable_def redisUtils_del_def client_del_def)

lemma redisUtils_incr_other:
  "k' \<noteq> k \<Longrightarrow> entries (fst (redisUtils_incr c now k ttl)) k' = entries c k'"
  by (auto simp: redisUtils_incr_def client_incr_def client_expire_def live_def
        split: option.splits rvalue.splits prod.splits if_splits sum.splits)

lemma redisUtils_incr_fresh:
  assumes "reachable c" "live c t k = None"
  shows "redisUtils_incr c t k ttl
           = (c\<lparr>entries := (entries c)(k \<mapsto> (Counter 1, Some (t + ttl)))\<rparr>, 1)"
  using assms
  by (auto simp: reachable_def redisUtils_incr_def client_incr_def client_expire_def live_def
        split: option.splits if_splits)

lemma redisUtils_incr_live:
  assumes "reachable c" "entries c k = Some (Counter n, Some e)" "t < e" "n \<noteq> 0"
  shows "redisUtils_incr c t k ttl
           = (c\<lparr>entries := (entries c)(k \<mapsto> (Counter (n + 1), Some e))\<rparr>, n + 1)"
  using assms
  by (simp add: reachable_def redisUtils_incr_def client_incr_def)

lemma blacklistToken_entry:
  "reachable c \<Longrightarrow>
     entries (fst (blacklistToken c now tok ty))
       = (entries c)((if ty = RefreshType then BlacklistRefreshKey tok else BlacklistKey tok)
            \<mapsto> (JsonString ''blacklisted'',
                Some (now + (if ty = RefreshType then 30 * 24 * 60 * 60 else 7 * 24 * 60 * 60))))"
  by (simp add: reachable_def blacklistToken_def redisUtils_set_def client_setEx_def Let_def)

lemma blacklistToken_unreachable:
  "\<not> reachable c \<Longrightarrow> fst (blacklistToken c now tok ty) = c"
  by (auto simp: reachable_def blacklistToken_def redisUtils_set_def client_setEx_def Let_def)


subsection \<open>Password hashes\<close>

text \<open>Bytes beyond the 72nd do not enter the hash.\<close>

lemma bcrypt_key_truncates:
  assumes "72 \<le> length p"
  shows "bcrypt_key (p @ q) = bcrypt_key p"
proof -
  have r: "replicate 72 xs = xs # replicate 71 xs" for xs :: string
    by (simp add: replicate_Suc [symmetric] del: replicate_Suc)
  show ?thesis using assms by (simp add: bcrypt_key_def r)
qed

lemma comparePassword_truncates:
  assumes "password u = Some (bcrypt_hash p)" "72 \<le> length p"
  shows "comparePassword u (p @ q) = Some True"
  using assms by (simp add: comparePassword_def bcrypt_hash_def bcrypt_key_truncates)

subsection \<open>Token verification\<close>

lemma jwt_verify_invalid:
  "\<not> signature_valid secret tok \<Longrightarrow>
     jwt_verify tok secret [jwt_algorithm] now = Inl JsonWebTokenError"
  by (cases tok) auto

lemma jwt_verify_Inr:
  "jwt_verify tok secret [jwt_algorithm] now = Inr p \<Longrightarrow>
     signature_valid secret tok \<and> \<not> expired tok now"
  by (cases tok) (auto split: if_splits)

section \<open>Properties\<close>

subsection \<open>The status gate of \<^verbatim>\<open>authenticate\<close>\<close>

text \<open>
  The claim that a user whose status in the user collection is not \<^verbatim>\<open>active\<close> is
  rejected whatever the cache holds fails on the history \<open>stale_world\<close>: the
  collection says \<^verbatim>\<open>suspended\<close>, the cache entry written at login still says
  \<^verbatim>\<open>active\<close>, and one minute after the login \<^verbatim>\<open>authenticate\<close> attaches the cached
  document to the request.
\<close>

theorem stale_cache_counterexample:
  "stored_status (mongo stale_world) ''u1'' = Some Suspended \<and>
   attached (snd (authenticate default_config 60 stale_world req_tokA)) = Some alice_logged_in"
  by (simp add: stale_world_eq stored_status_def User_findById_def alice_logged_in_def alice_def
      authenticate_def req_tokA_def req0_def tokA_eq default_config_def jwt_algorithm_def
      redisUtils_exists_def client_exists_def live_def getDiasporaData_def redisUtils_get_def
      client_get_def attach_def)

text \<open>
  Claim C1, as amended. For a request whose bearer token is signature-valid, unexpired
  and not revoked, \<^verbatim>\<open>authenticate\<close> decides on the user object it resolves: the live
  cache entry of the token's user id if there is one, the document of the user collection
  otherwise. If the cached document has a status other than \<^verbatim>\<open>active\<close>, or if nothing is
  cached and the stored document has a status other than \<^verbatim>\<open>active\<close>, the answer is 403
  \<^verbatim>\<open>ACCOUNT_SUSPENDED\<close> naming that status, and no identity is attached. A cached
  document whose status is \<^verbatim>\<open>active\<close> is attached as the identity.
\<close>

theorem authenticate_status_gate:
  "header_authorization req = Bearer tok \<Longrightarrow>
   jwt_verify tok (jwt_secret cfg) [jwt_algorithm] now = Inr p \<Longrightarrow>
   \<not> redisUtils_exists (redis w) now (BlacklistKey tok) \<Longrightarrow>
     (getDiasporaData (redis w) now (payload_userId p) = Some (JsonUser cu) \<and>
      status cu \<noteq> Active \<longrightarrow>
        authenticate cfg now w req
          = (w, Responded (failure 403 ''Account suspended''
                   (Some (''Your account is '' @ status_str (status cu))) ''ACCOUNT_SUSPENDED'')) \<and>
        attached (snd (authenticate cfg now w req)) = None) \<and>
     (getDiasporaData (redis w) now (payload_userId p) = None \<and>
      stored_status (mongo w) (payload_userId p) = Some st \<and> st \<noteq> Active \<longrightarrow>
        snd (authenticate cfg now w req)
          = Responded (failure 403 ''Account suspended''
                   (Some (''Your account is '' @ status_str st)) ''ACCOUNT_SUSPENDED'') \<and>
        attached (snd (authenticate cfg now w req)) = None) \<and>
     (getDiasporaData (redis w) now (payload_userId p) = Some (JsonUser cu) \<and>
      status cu = Active \<longrightarrow>
        attached (snd (authenticate cfg now w req)) = Some cu)"
  by (auto simp: authenticate_def authenticate_lookup_def attach_def stored_status_def
        select_public_def split: sum.splits option.splits)

theorem authenticate_status_gate_witness:
  "response_code (snd (authenticate default_config 60 world_alice_suspended req_tokA))
     = Some ''ACCOUNT_SUSPENDED'' \<and>
   attached (snd (authenticate default_config 60 world_alice_suspended req_tokA)) = None \<and>
   response_code
     (snd (authenticate default_config 70
             (fst (authenticate default_config 60 world_alice_suspended req_tokA)) req_tokA))
     = Some ''ACCOUNT_SUSPENDED'' \<and>
   attached (snd (authenticate default_config 60 world_logged_in req_tokA)) = Some alice_logged_in"
proof -
  let ?p = "AccessPayload ''u1'' ''a@x.com'' ''alice'' RoleUser"
  let ?w1 = "fst (authenticate default_config 60 world_alice_suspended req_tokA)"
  have h: "header_authorization req_tokA = Bearer tokA"
    by (simp add: req_tokA_def)
  have v: "jwt_verify tokA (jwt_secret default_config) [jwt_algorithm] 70 = Inr ?p"
    by (simp add: tokA_eq default_config_def jwt_algorithm_def)
  have w1: "?w1 = world_alice_suspended
              \<lparr>redis := redis0\<lparr>entries := [DiasporaKey ''u1'' \<mapsto>
                  (JsonUser (select_public (alice\<lparr>status := Suspended\<rparr>)), Some 1860)]\<rparr>\<rparr>"
    by (simp add: authenticate_def authenticate_lookup_def attach_def req_tokA_def req0_def
        tokA_eq default_config_def jwt_algorithm_def world_alice_suspended_def world0_def
        redis0_def redisUtils_exists_def client_exists_def live_def getDiasporaData_def
        redisUtils_get_def client_get_def User_findById_def alice_def select_public_def
        cacheDiasporaData_def redisUtils_set_def client_setEx_def cache_ttl_user_def)
  have miss: "\<not> redisUtils_exists (redis world_alice_suspended) 60 (BlacklistKey tokA)"
    "getDiasporaData (redis world_alice_suspended) 60 (payload_userId ?p) = None"
    "stored_status (mongo world_alice_suspended) (payload_userId ?p) = Some Suspended"
    by (simp_all add: world_alice_suspended_def world0_def redis0_def redisUtils_exists_def
        client_exists_def live_def getDiasporaData_def redisUtils_get_def client_get_def
        stored_status_def User_findById_def alice_def)
  have hit: "\<not> redisUtils_exists (redis ?w1) 70 (BlacklistKey tokA)"
    "getDiasporaData (redis ?w1) 70 (payload_userId ?p)
       = Some (JsonUser (select_public (alice\<lparr>status := Suspended\<rparr>)))"
    "status (select_public (alice\<lparr>status := Suspended\<rparr>)) \<noteq> Active"
    by (simp_all add: w1 redis0_def redisUtils_exists_def client_exists_def live_def
        getDiasporaData_def redisUtils_get_def client_get_def select_public_def)
  have act: "\<not> redisUtils_exists (redis world_logged_in) 60 (BlacklistKey tokA)"
    "getDiasporaData (redis world_logged_in) 60 (payload_userId ?p)
       = Some (JsonUser alice_logged_in)"
    "status alice_logged_in = Active"
    by (simp_all add: world_logged_in_eq redisUtils_exists_def client_exists_def live_def
        getDiasporaData_def redisUtils_get_def client_get_def alice_logged_in_def alice_def)
  note T = authenticate_status_gate
  have a: "response_code (snd (authenticate default_config 60 world_alice_suspended req_tokA))
             = Some ''ACCOUNT_SUSPENDED'' \<and>
           attached (snd (authenticate default_config 60 world_alice_suspended req_tokA)) = None"
    using T [OF h verify_tokA miss(1), where st = Suspended] miss(2,3)
    by (simp add: failure_def)
  have b: "response_code (snd (authenticate default_config 70 ?w1 req_tokA))
             = Some ''ACCOUNT_SUSPENDED''"
    using T [OF h v hit(1), where cu = "select_public (alice\<lparr>status := Suspended\<rparr>)"] hit(2,3)
    by (simp add: failure_def)
  have c: "attached (snd (authenticate default_config 60 world_logged_in req_tokA))
             = Some alice_logged_in"
    using T [OF h verify_tokA act(1), where cu = alice_logged_in] act(2,3) by simp
  show ?thesis using a b c by simp
qed

subsection \<open>Logout and the revocation registry\<close>

lemma logout_blacklist_entry:
  assumes "reachable (redis w)" "header_authorization req = Bearer tok"
  shows "entries (redis (fst (logout now w req))) (BlacklistKey tok)
           = Some (JsonString ''blacklisted'', Some (now + 7 * 24 * 60 * 60))"
  using assms
  by (cases "user req")
     (simp_all add: logout_def logout_token_def Let_def redisUtils_del_entries blacklistToken_entry)

lemma refreshToken_blacklist_entry:
  assumes "reachable (redis w)" "user req = Some u" "req_refreshToken req = Some old"
  shows "entries (redis (fst (refreshToken cfg now w req))) (BlacklistRefreshKey old)
           = Some (JsonString ''blacklisted'', Some (now + 30 * 24 * 60 * 60))"
  using assms
  by (simp add: refreshToken_def Let_def redisUtils_set_entries blacklistToken_entry)

text \<open>No call of the backend removes a blacklist entry or shortens its life.\<close>

lemma perform_keeps_blacklist:
  assumes "entries c (BlacklistKey tok) = Some (v, Some e)" "t0 + 7 * 24 * 60 * 60 \<le> e" "t0 \<le> t"
  shows "\<exists>v' e'. entries (perform c t x) (BlacklistKey tok) = Some (v', Some e') \<and>
           t0 + 7 * 24 * 60 * 60 \<le> e'"
proof (cases x)
  case (Blacklist tok' ty)
  show ?thesis
  proof (cases "reachable c")
    case True
    with assms Blacklist show ?thesis by (auto simp: blacklistToken_entry)
  next
    case False
    with assms Blacklist show ?thesis by (simp add: blacklistToken_unreachable)
  qed
qed (use assms in \<open>simp_all add: cacheDiasporaData_def redisUtils_set_entries
       redisUtils_del_entries redisUtils_incr_other\<close>)

lemma step_keeps_blacklist:
  assumes "entries (snd s) (BlacklistKey tok) = Some (v, Some e)" "t0 + 7 * 24 * 60 * 60 \<le> e"
    "t0 \<le> fst s"
  shows "\<exists>v' e'. entries (snd (step s ev)) (BlacklistKey tok) = Some (v', Some e') \<and>
           t0 + 7 * 24 * 60 * 60 \<le> e' \<and> t0 \<le> fst (step s ev)"
proof (cases s)
  case (Pair t c)
  show ?thesis
  proof (cases ev)
    case (Call x)
    with Pair assms perform_keeps_blacklist [of c tok v e t0 t x] show ?thesis by simp
  qed (use Pair assms in simp_all)
qed

lemma run_keeps_blacklist:
  assumes "entries (snd s) (BlacklistKey tok) = Some (v, Some e)" "t0 + 7 * 24 * 60 * 60 \<le> e"
    "t0 \<le> fst s"
  shows "\<exists>v' e'. entries (snd (run s evs)) (BlacklistKey tok) = Some (v', Some e') \<and>
           t0 + 7 * 24 * 60 * 60 \<le> e'"
  using assms
proof (induction evs arbitrary: s v e)
  case Nil
  then show ?case by (simp add: run_def)
next
  case (Cons ev evs)
  from step_keeps_blacklist [OF Cons.prems] obtain v' e' where
    "entries (snd (step s ev)) (BlacklistKey tok) = Some (v', Some e')"
    "t0 + 7 * 24 * 60 * 60 \<le> e'" "t0 \<le> fst (step s ev)"
    by blast
  from Cons.IH [OF this] show ?case by (simp add: run_def)
qed

lemma authenticate_blacklisted:
  assumes "header_authorization req = Bearer tok" "signature_valid (jwt_secret cfg) tok"
    "\<not> expired tok now" "reachable (redis w)"
    "entries (redis w) (BlacklistKey tok) = Some (v, Some e)" "now < e"
  shows "authenticate cfg now w req
           = (w, Responded (failure 401 ''Token revoked'' (Some ''This token has been revoked'')
                   ''TOKEN_REVOKED''))"
  using assms
  by (cases tok)
     (simp_all add: authenticate_def reachable_def redisUtils_exists_def client_exists_def live_def)

text \<open>
  The claim that a token revoked by logout is refused for as long as it has not
  expired fails under \<^verbatim>\<open>JWT_EXPIRES_IN=30d\<close>: Alice logs out at instant 0 with a token that
  expires on day 30; the registry entry is written with a life of 7 days; on day 8
  (instant 691200) the token is unexpired, the registry is reachable, and
  \<^verbatim>\<open>authenticate\<close> attaches her identity.
\<close>

theorem logout_outlived_counterexample:
  "\<not> expired tok30 691200 \<and> reachable (redis world_logged_out30) \<and>
   entries (redis world_logged_out30) (BlacklistKey tok30)
     = Some (JsonString ''blacklisted'', Some 604800) \<and>
   attached (snd (authenticate config30 691200 world_logged_out30 req_tok30))
     = Some (select_public alice)"
  by (simp add: tok30_eq world_logged_out30_def logout_def logout_token_def req_logout30_def
      req_tok30_def req0_def blacklistToken_def redisUtils_set_def redisUtils_del_def
      client_setEx_def client_del_def world0_def redis0_def reachable_def select_public_def
      alice_def Let_def authenticate_def config30_def default_config_def jwt_algorithm_def
      redisUtils_exists_def client_exists_def live_def getDiasporaData_def redisUtils_get_def
      client_get_def authenticate_lookup_def User_findById_def attach_def cacheDiasporaData_def)

text \<open>
  Claim C2, as amended. Once \<^verbatim>\<open>logout\<close> has run with the access token T while the
  registry was reachable, then after any further calls of the backend on the store and
  any passage of time, \<^verbatim>\<open>authenticate\<close> presented with T, signature-valid and
  unexpired, with the registry reachable, answers 401 \<^verbatim>\<open>TOKEN_REVOKED\<close>, provided fewer
  than 604800 seconds (7 days, the life of the registry entry) have passed since the
  logout. That covers all of T's remaining life when T was issued before the logout under
  a configured lifetime of at most 7 days, the default.
\<close>

theorem logout_revokes_while_entry_lives:
  assumes "header_authorization req = Bearer tok" "reachable (redis w)"
    "run (t0, redis (fst (logout t0 w req))) evs = (t, c)" "reachable c"
    "header_authorization req' = Bearer tok"
    "signature_valid (jwt_secret cfg) tok" "\<not> expired tok t"
    "t < t0 + 7 * 24 * 60 * 60 \<or>
     (tok = generateAuthToken cfg iat u \<and> iat \<le> t0 \<and> jwt_expiresIn cfg \<le> 7 * 24 * 60 * 60)"
  shows "authenticate cfg t (w'\<lparr>redis := c\<rparr>) req'
           = (w'\<lparr>redis := c\<rparr>,
              Responded (failure 401 ''Token revoked'' (Some ''This token has been revoked'')
                  ''TOKEN_REVOKED''))"
proof -
  from run_keeps_blacklist [of "(t0, redis (fst (logout t0 w req)))" tok _ _ t0 evs]
    logout_blacklist_entry [OF assms(2) assms(1), of t0] assms(3)
  obtain v' e' where e: "entries c (BlacklistKey tok) = Some (v', Some e')"
    "t0 + 7 * 24 * 60 * 60 \<le> e'"
    by auto
  have "t < t0 + 7 * 24 * 60 * 60"
    using assms(7,8) by (auto simp: generateAuthToken_def)
  with e have "t < e'" by simp
  with authenticate_blacklisted [of req' tok cfg t "w'\<lparr>redis := c\<rparr>" v' e'] assms e
  show ?thesis by simp
qed

theorem logout_revokes_while_entry_lives_witness:
  "authenticate default_config (fst later) (world0\<lparr>redis := snd later\<rparr>) req_tokA
     = (world0\<lparr>redis := snd later\<rparr>,
        Responded (failure 401 ''Token revoked'' (Some ''This token has been revoked'')
            ''TOKEN_REVOKED''))"
proof -
  have h: "header_authorization req_alice = Bearer tokA" "header_authorization req_tokA = Bearer tokA"
    by (simp_all add: req_alice_def req_tokA_def)
  have r0: "reachable (redis world0)"
    by (simp add: reachable_def world0_def redis0_def)
  have ru: "run (1000, redis (fst (logout 1000 world0 req_alice)))
              [Call (CacheUser ''u1'' alice), Elapse 5000, Call (DelCache ''u1''),
               Call (CountRequest ''u1'' 60)] = (fst later, snd later)"
    by (simp add: later_def)
  have t: "fst later = 6000"
    by (simp add: later_def run_def)
  have rl: "reachable (snd later)"
    by (simp add: later_def run_def reachable_def logout_def logout_token_def req_alice_def
        req_tokA_def req0_def blacklistToken_def redisUtils_set_def redisUtils_del_def
        client_setEx_def client_del_def world0_def redis0_def cacheDiasporaData_def
        redisUtils_incr_def client_incr_def client_expire_def live_def Let_def)
  have s: "signature_valid (jwt_secret default_config) tokA" "\<not> expired tokA (fst later)"
    by (simp_all add: t tokA_eq default_config_def jwt_algorithm_def)
  have d: "fst later < 1000 + 7 * 24 * 60 * 60 \<or>
     (tokA = generateAuthToken default_config 0 alice \<and> 0 \<le> (1000::nat) \<and>
      jwt_expiresIn default_config \<le> 7 * 24 * 60 * 60)"
    by (simp add: t)
  show ?thesis
    by (rule logout_revokes_while_entry_lives [OF h(1) r0 ru rl h(2) s d])
qed

text \<open>
  The claim that the registry entry of a revoked token carries the token's remaining
  lifetime as its TTL fails for Alice's access token, issued at instant 0 for 7 days and
  revoked by \<^verbatim>\<open>logout\<close> at instant 1000: the entry's TTL is 604800 seconds, the token
  has 603800 seconds left.
\<close>

theorem blacklist_ttl_counterexample:
  "ttl_of (redis (fst (logout 1000 world0 req_alice))) 1000 (BlacklistKey tokA) = Some 604800 \<and>
   remaining_lifetime tokA 1000 = 603800"
  by (simp add: tokA_eq logout_def logout_token_def req_alice_def req_tokA_def req0_def
      blacklistToken_def redisUtils_set_def redisUtils_del_def client_setEx_def client_del_def
      world0_def redis0_def ttl_of_def select_public_def alice_def Let_def)

text \<open>
  Claim C5, as amended. With the registry reachable, the entry that \<^verbatim>\<open>logout\<close> writes
  under the raw value of the access token carries a TTL of 7 days (604800 seconds), and
  the entry that the refresh operation writes under the raw value of the old refresh token
  carries a TTL of 30 days (2592000 seconds), whatever lifetime the token has left.
\<close>

theorem blacklist_ttl_fixed:
  "reachable (redis w) \<Longrightarrow>
     (header_authorization req = Bearer tok \<longrightarrow>
        ttl_of (redis (fst (logout now w req))) now (BlacklistKey tok) = Some (7 * 24 * 60 * 60)) \<and>
     (user req = Some u \<and> req_refreshToken req = Some old \<longrightarrow>
        ttl_of (redis (fst (refreshToken cfg now w req))) now (BlacklistRefreshKey old)
          = Some (30 * 24 * 60 * 60))"
  by (simp add: ttl_of_def logout_blacklist_entry refreshToken_blacklist_entry)

theorem blacklist_ttl_fixed_witness:
  "ttl_of (redis (fst (logout 5000 world0 req_validated))) 5000 (BlacklistKey tokA)
     = Some 604800 \<and>
   ttl_of (redis (fst (refreshToken default_config 5000 world0 req_validated))) 5000
     (BlacklistRefreshKey rtA) = Some 2592000"
proof -
  have r0: "reachable (redis world0)"
    by (simp add: reachable_def world0_def redis0_def)
  have h: "header_authorization req_validated = Bearer tokA"
    "user req_validated = Some (select_public alice)" "req_refreshToken req_validated = Some rtA"
    by (simp_all add: req_validated_def req_alice_def req_tokA_def)
  from blacklist_ttl_fixed [OF r0, of req_validated tokA 5000 "select_public alice" rtA
      default_config] h
  show ?thesis by simp
qed

subsection \<open>The refresh operation\<close>

lemma userRateLimit_no_user:
  "user req = None \<Longrightarrow> userRateLimit windowMs maxRequests now w req = (w, Next req)"
  by (simp add: userRateLimit_def)

lemma route_limiter_no_user:
  "user req = None \<Longrightarrow> route_limiter r now w req = (w, Next req)"
  by (cases "route_limit r") (auto simp: route_limiter_def userRateLimit_no_user)

lemma validateRefreshToken_rejects:
  assumes "body_refreshToken req = Some rt" "rt \<noteq> Garbage []"
    "\<not> signature_valid (jwt_refreshSecret cfg) rt"
  shows "validateRefreshToken cfg now w req
           = (w, Responded (failure 401 ''Invalid refresh token'' None ''INVALID_REFRESH_TOKEN''))"
  using assms by (simp add: validateRefreshToken_def jwt_verify_invalid)

lemma validateRefreshToken_Next:
  assumes "validateRefreshToken cfg now w req = (w1, Next req1)"
  shows "\<exists>rt u. body_refreshToken req = Some rt \<and> signature_valid (jwt_refreshSecret cfg) rt \<and>
           w1 = w \<and> user req1 = Some u \<and> req_refreshToken req1 = Some rt"
  using assms
  by (auto simp: validateRefreshToken_def split: option.splits if_splits sum.splits
        dest: jwt_verify_Inr)

lemma refreshToken_success:
  assumes "user req = Some u" "req_refreshToken req = Some old"
  shows "snd (refreshToken cfg now w req)
           = Responded ((ok 200 ''Tokens refreshed successfully'')
               \<lparr> data_tokens := Some \<lparr> env_accessToken = generateAuthToken cfg now u,
                                       env_refreshToken = generateRefreshToken cfg now u,
                                       env_expiresIn = jwt_expiresIn cfg \<rparr> \<rparr>)"
    and "reachable (redis w) \<Longrightarrow>
           live (redis (fst (refreshToken cfg now w req))) now (BlacklistRefreshKey old)
             = Some (JsonString ''blacklisted'')"
  using assms
  by (simp_all add: refreshToken_def Let_def live_def redisUtils_set_entries blacklistToken_entry)

text \<open>
  The claim that a successful refresh always inserts the old refresh token into the
  registry fails when the Redis client is not ready: Alice's refresh token is accepted,
  the answer is 200 with a new pair, and the store holds no entry for the old token.
\<close>

theorem refresh_unrecorded_counterexample:
  "response_status (snd (refresh_token_route default_config 10 world_down req_refresh))
     = Some 200 \<and>
   entries (redis (fst (refresh_token_route default_config 10 world_down req_refresh)))
     (BlacklistRefreshKey rtA) = None"
  by (simp add: refresh_token_route_def route_limiter_def userRateLimit_def req_refresh_def
      req0_def validateRefreshToken_def rtA_eq default_config_def jwt_algorithm_def
      world_down_def world0_def redis0_def redisUtils_exists_def User_findById_def alice_def
      select_default_def refreshToken_def Let_def blacklistToken_def redisUtils_set_def ok_def)

text \<open>
  Claim C6, as amended. For a call to the refresh operation (the route
  \<^verbatim>\<open>/refresh-token\<close>, reached without an identity attached): a non-empty token whose
  structure, algorithm or signature is not valid for the refresh secret, such as a token
  signed with a different access secret, is answered 401 \<^verbatim>\<open>INVALID_REFRESH_TOKEN\<close>
  and changes nothing; and when validation lets the request through, the answer is 200
  with a new access token and a new refresh token issued for the validated user, and,
  if the registry is reachable, the old refresh token is in the registry afterwards.
\<close>

theorem refresh_flow:
  "user req = None \<Longrightarrow>
     (body_refreshToken req = Some rt \<and> rt \<noteq> Garbage [] \<and>
        \<not> signature_valid (jwt_refreshSecret cfg) rt \<longrightarrow>
        refresh_token_route cfg now w req
          = (w, Responded (failure 401 ''Invalid refresh token'' None ''INVALID_REFRESH_TOKEN''))) \<and>
     (proceeds (snd (validateRefreshToken cfg now w req)) \<longrightarrow>
        (\<exists>old u. body_refreshToken req = Some old \<and>
           signature_valid (jwt_refreshSecret cfg) old \<and>
           attached (snd (validateRefreshToken cfg now w req)) = Some u \<and>
           snd (refresh_token_route cfg now w req)
             = Responded ((ok 200 ''Tokens refreshed successfully'')
                 \<lparr> data_tokens := Some \<lparr> env_accessToken = generateAuthToken cfg now u,
                                         env_refreshToken = generateRefreshToken cfg now u,
                                         env_expiresIn = jwt_expiresIn cfg \<rparr> \<rparr>) \<and>
           (reachable (redis w) \<longrightarrow>
              live (redis (fst (refresh_token_route cfg now w req))) now (BlacklistRefreshKey old)
                = Some (JsonString ''blacklisted''))))"
proof (intro conjI impI)
  assume nu: "user req = None"
  { assume "body_refreshToken req = Some rt \<and> rt \<noteq> Garbage [] \<and>
        \<not> signature_valid (jwt_refreshSecret cfg) rt"
    then show "refresh_token_route cfg now w req
          = (w, Responded (failure 401 ''Invalid refresh token'' None ''INVALID_REFRESH_TOKEN''))"
      using nu
      by (simp add: refresh_token_route_def route_limiter_no_user validateRefreshToken_rejects) }
  { assume p: "proceeds (snd (validateRefreshToken cfg now w req))"
    then obtain w1 req1 where v: "validateRefreshToken cfg now w req = (w1, Next req1)"
      by (cases "validateRefreshToken cfg now w req";
          cases "snd (validateRefreshToken cfg now w req)") auto
    from validateRefreshToken_Next [OF v] obtain old u where
      o: "body_refreshToken req = Some old" "signature_valid (jwt_refreshSecret cfg) old"
         "w1 = w" "user req1 = Some u" "req_refreshToken req1 = Some old"
      by blast
    have r: "refresh_token_route cfg now w req = refreshToken cfg now w req1"
      using nu v o(3) by (simp add: refresh_token_route_def route_limiter_no_user)
    show "\<exists>old u. body_refreshToken req = Some old \<and>
           signature_valid (jwt_refreshSecret cfg) old \<and>
           attached (snd (validateRefreshToken cfg now w req)) = Some u \<and>
           snd (refresh_token_route cfg now w req)
             = Responded ((ok 200 ''Tokens refreshed successfully'')
                 \<lparr> data_tokens := Some \<lparr> env_accessToken = generateAuthToken cfg now u,
                                         env_refreshToken = generateRefreshToken cfg now u,
                                         env_expiresIn = jwt_expiresIn cfg \<rparr> \<rparr>) \<and>
           (reachable (redis w) \<longrightarrow>
              live (redis (fst (refresh_token_route cfg now w req))) now (BlacklistRefreshKey old)
                = Some (JsonString ''blacklisted''))"
      apply (rule exI [of _ old], rule exI [of _ u])
      using o v refreshToken_success [OF o(4) o(5), where w = w and cfg = cfg and now = now]
      by (simp add: r) }
qed

theorem refresh_flow_witness:
  "refresh_token_route default_config 10 world0 req_refresh_with_access
     = (world0, Responded (failure 401 ''Invalid refresh token'' None ''INVALID_REFRESH_TOKEN'')) \<and>
   (\<exists>old u. body_refreshToken req_refresh = Some old \<and>
      signature_valid (jwt_refreshSecret default_config) old \<and>
      attached (snd (validateRefreshToken default_config 10 world0 req_refresh)) = Some u \<and>
      snd (refresh_token_route default_config 10 world0 req_refresh)
        = Responded ((ok 200 ''Tokens refreshed successfully'')
            \<lparr> data_tokens := Some \<lparr> env_accessToken = generateAuthToken default_config 10 u,
                                    env_refreshToken = generateRefreshToken default_config 10 u,
                                    env_expiresIn = jwt_expiresIn default_config \<rparr> \<rparr>) \<and>
      live (redis (fst (refresh_token_route default_config 10 world0 req_refresh))) 10
        (BlacklistRefreshKey old) = Some (JsonString ''blacklisted''))"
proof -
  have n: "user req_refresh_with_access = None" "user req_refresh = None"
    by (simp_all add: req_refresh_with_access_def req_refresh_def req0_def)
  have a: "body_refreshToken req_refresh_with_access = Some tokA \<and> tokA \<noteq> Garbage [] \<and>
        \<not> signature_valid (jwt_refreshSecret default_config) tokA"
    by (simp add: req_refresh_with_access_def tokA_eq default_config_def)
  have p: "proceeds (snd (validateRefreshToken default_config 10 world0 req_refresh))"
    by (simp add: validateRefreshToken_def req_refresh_def req0_def rtA_eq default_config_def
        jwt_algorithm_def world0_def redis0_def redisUtils_exists_def client_exists_def live_def
        User_findById_def alice_def)
  have r0: "reachable (redis world0)"
    by (simp add: reachable_def world0_def redis0_def)
  from refresh_flow [OF n(1), of tokA default_config 10 world0] a
  have 1: "refresh_token_route default_config 10 world0 req_refresh_with_access
     = (world0, Responded (failure 401 ''Invalid refresh token'' None ''INVALID_REFRESH_TOKEN''))"
    by blast
  from refresh_flow [OF n(2), of rt default_config 10 world0] p r0
  show ?thesis using 1 by simp
qed

subsection \<open>The two verification errors\<close>



subsection \<open>The rate limiter\<close>

lemma userRateLimit_fresh:
  assumes "user req = Some u" "reachable (redis w)"
    "live (redis w) t (RateLimitUserKey (uid u)) = None"
  shows "userRateLimit windowMs K t w req
           = (w\<lparr>redis := (redis w)\<lparr>entries := (entries (redis w))
                    (RateLimitUserKey (uid u) \<mapsto> (Counter 1, Some (t + windowMs div 1000)))\<rparr>\<rparr>,
              if 0 < K then Next req else Responded (too_many windowMs))"
  using assms by (simp add: userRateLimit_def redisUtils_incr_fresh)

lemma userRateLimit_live:
  assumes "user req = Some u" "reachable (redis w)"
    "entries (redis w) (RateLimitUserKey (uid u)) = Some (Counter (int j), Some e)" "t < e" "0 < j"
  shows "userRateLimit windowMs K t w req
           = (w\<lparr>redis := (redis w)\<lparr>entries := (entries (redis w))
                    (RateLimitUserKey (uid u) \<mapsto> (Counter (int (Suc j)), Some e))\<rparr>\<rparr>,
              if j < K then Next req else Responded (too_many windowMs))"
  using assms
  by (auto simp: userRateLimit_def redisUtils_incr_live [where n = "int j" and e = e] add.commute)

text \<open>
  Inside a window: the counter stands at \<open>j\<close> and expires at \<open>e\<close>; every further
  request before \<open>e\<close> adds one, passes while the count stays within the limit, and leaves
  the expiry alone.
\<close>

lemma serve_in_window:
  assumes "user req = Some u" "reachable (redis w)"
    "entries (redis w) (RateLimitUserKey (uid u)) = Some (Counter (int j), Some e)" "0 < j"
    "\<forall>t\<in>set ts. t < e"
  shows "length (snd (serve windowMs K w req ts)) = length ts \<and>
         (\<forall>i<length ts. snd (serve windowMs K w req ts) ! i
              = (if j + i < K then Next req else Responded (too_many windowMs))) \<and>
         entries (redis (fst (serve windowMs K w req ts))) (RateLimitUserKey (uid u))
              = Some (Counter (int (j + length ts)), Some e) \<and>
         reachable (redis (fst (serve windowMs K w req ts)))"
  using assms
proof (induction ts arbitrary: w j)
  case Nil
  then show ?case by simp
next
  case (Cons t ts)
  let ?w1 = "w\<lparr>redis := (redis w)\<lparr>entries := (entries (redis w))
                    (RateLimitUserKey (uid u) \<mapsto> (Counter (int (Suc j)), Some e))\<rparr>\<rparr>"
  have s: "userRateLimit windowMs K t w req
             = (?w1, if j < K then Next req else Responded (too_many windowMs))"
    using Cons.prems by (intro userRateLimit_live) simp_all
  have r1: "reachable (redis ?w1)" using Cons.prems(2) by (simp add: reachable_def)
  have e1: "entries (redis ?w1) (RateLimitUserKey (uid u)) = Some (Counter (int (Suc j)), Some e)"
    by simp
  have ts: "\<forall>t\<in>set ts. t < e" using Cons.prems(5) by simp
  note IH = Cons.IH [OF Cons.prems(1) r1 e1 _ ts, simplified]
  have sv: "serve windowMs K w req (t # ts)
              = (fst (serve windowMs K ?w1 req ts),
                 (if j < K then Next req else Responded (too_many windowMs))
                   # snd (serve windowMs K ?w1 req ts))"
    by (simp add: s split: prod.splits)
  show ?case
    unfolding sv using IH
    by (auto simp: nth_Cons split: nat.splits)
qed

text \<open>
  A series through one limiter. A user sends requests through a limiter of window
  \<open>N = windowMs div 1000\<close> seconds and limit \<open>K\<close>, the counter store reachable; the
  first request, at \<open>t0\<close>, finds no live counter and opens the window, the others come
  before \<open>t0 + N\<close>, and nothing else counts on the user's key meanwhile. Then the first
  \<open>K\<close> requests pass and every later one, the \<open>(K+1)\<close>th included, is answered 429
  \<^verbatim>\<open>USER_RATE_LIMIT_EXCEEDED\<close>; the counter still expires at \<open>t0 + N\<close>, the instant set
  by the request whose increment returned 1; and a request at or after \<open>t0 + N\<close> passes
  again (for \<open>K > 0\<close>) and opens a new window.
\<close>

lemma rate_limit_single_series:
  assumes "user req = Some u" "reachable (redis w)"
    "live (redis w) t0 (RateLimitUserKey (uid u)) = None"
    "\<forall>t\<in>set ts. t0 \<le> t \<and> t < t0 + windowMs div 1000"
    "serve windowMs K w req (t0 # ts) = (w', outs)"
  shows "length outs = Suc (length ts) \<and>
         (\<forall>i<length outs. outs ! i
            = (if i < K then Next req
               else Responded ((failure 429 ''Rate limit exceeded'' None
                                  ''USER_RATE_LIMIT_EXCEEDED'')
                               \<lparr>retryAfter := Some (windowMs div 1000)\<rparr>))) \<and>
         entries (redis w') (RateLimitUserKey (uid u))
           = Some (Counter (1 + int (length ts)), Some (t0 + windowMs div 1000)) \<and>
         (\<forall>t'. 0 < K \<and> t0 + windowMs div 1000 \<le> t' \<longrightarrow>
            snd (userRateLimit windowMs K t' w' req) = Next req \<and>
            entries (redis (fst (userRateLimit windowMs K t' w' req))) (RateLimitUserKey (uid u))
              = Some (Counter 1, Some (t' + windowMs div 1000)))"
proof -
  let ?k = "RateLimitUserKey (uid u)"
  let ?e = "t0 + windowMs div 1000"
  let ?w1 = "w\<lparr>redis := (redis w)\<lparr>entries := (entries (redis w))(?k \<mapsto> (Counter 1, Some ?e))\<rparr>\<rparr>"
  have s: "userRateLimit windowMs K t0 w req
             = (?w1, if 0 < K then Next req else Responded (too_many windowMs))"
    using assms(1-3) by (rule userRateLimit_fresh)
  have r1: "reachable (redis ?w1)" using assms(2) by (simp add: reachable_def)
  have e1: "entries (redis ?w1) ?k = Some (Counter (int 1), Some ?e)" by simp
  have ts: "\<forall>t\<in>set ts. t < ?e" using assms(4) by simp
  note W = serve_in_window [OF assms(1) r1 e1 _ ts, of windowMs K, simplified]
  have sv: "serve windowMs K w req (t0 # ts)
              = (fst (serve windowMs K ?w1 req ts),
                 (if 0 < K then Next req else Responded (too_many windowMs))
                   # snd (serve windowMs K ?w1 req ts))"
    by (simp add: s split: prod.splits)
  from sv assms(5) have w': "w' = fst (serve windowMs K ?w1 req ts)"
    and outs: "outs = (if 0 < K then Next req else Responded (too_many windowMs))
                   # snd (serve windowMs K ?w1 req ts)"
    by simp_all
  have a: "length outs = Suc (length ts)" using W outs by simp
  have "\<forall>i<length outs. outs ! i = (if i < K then Next req else Responded (too_many windowMs))"
    using W outs by (auto simp: nth_Cons split: nat.splits)
  then have b: "\<forall>i<length outs. outs ! i
            = (if i < K then Next req
               else Responded ((failure 429 ''Rate limit exceeded'' None
                                  ''USER_RATE_LIMIT_EXCEEDED'')
                               \<lparr>retryAfter := Some (windowMs div 1000)\<rparr>))"
    by (simp add: too_many_def)
  have c: "entries (redis w') ?k = Some (Counter (1 + int (length ts)), Some ?e)"
    using W w' by simp
  have rw: "reachable (redis w')" using W w' by simp
  have d: "\<forall>t'. 0 < K \<and> ?e \<le> t' \<longrightarrow>
            snd (userRateLimit windowMs K t' w' req) = Next req \<and>
            entries (redis (fst (userRateLimit windowMs K t' w' req))) ?k
              = Some (Counter 1, Some (t' + windowMs div 1000))"
  proof (intro allI impI)
    fix t' assume h: "0 < K \<and> ?e \<le> t'"
    then have "live (redis w') t' ?k = None" using c by (simp add: live_def)
    from userRateLimit_fresh [OF assms(1) rw this, of windowMs K] h
    show "snd (userRateLimit windowMs K t' w' req) = Next req \<and>
            entries (redis (fst (userRateLimit windowMs K t' w' req))) ?k
              = Some (Counter 1, Some (t' + windowMs div 1000))"
      by simp
  qed
  show ?thesis using a b c d by blast
qed

text \<open>
  Claim C8. Every rate-limited route is claimed to let the first \<open>K\<close> requests of a
  user in a window pass, \<open>K\<close> being the limit the route declares. The counter is kept
  under \<^verbatim>\<open>rate_limit:user:<id>\<close>, one key for all the limiters of a user. Alice's request
  to \<^verbatim>\<open>/deactivate-account\<close> (``1 attempt per day'') at instant 110 passes when it is her
  only request; sent after one request to \<^verbatim>\<open>/change-password\<close> (``5 attempts per hour'')
  at instant 100, which passes and opens the counter, it is her first request to that
  route and is answered 429 \<^verbatim>\<open>USER_RATE_LIMIT_EXCEEDED\<close>.
\<close>

theorem shared_counter_refuses_first_request:
  "snd (protected_route_limiter DeactivateAccount 110 world0 req_alice) = Next req_alice \<and>
   snd (protected_route_limiter ChangePassword 100 world0 req_alice) = Next req_alice \<and>
   entries (redis world_after_change_password) (RateLimitUserKey ''u1'')
     = Some (Counter 1, Some 3700) \<and>
   protected_route_limiter DeactivateAccount 110 world_after_change_password req_alice
     = (world_after_change_password
          \<lparr>redis := (redis world_after_change_password)
             \<lparr>entries := (entries (redis world_after_change_password))
                (RateLimitUserKey ''u1'' \<mapsto> (Counter 2, Some 3700))\<rparr>\<rparr>,
        Responded \<lparr> httpStatus = 429, success = False, error = Some ''Rate limit exceeded'',
                    message = None, code = Some ''USER_RATE_LIMIT_EXCEEDED'',
                    retryAfter = Some 86400, data_user = None, data_tokens = None \<rparr>)"
proof -
  have u: "user req_alice = Some (select_public alice)" by (simp add: req_alice_def)
  have i: "uid (select_public alice) = ''u1''" by (simp add: select_public_def alice_def)
  have r0: "reachable (redis world0)" by (simp add: reachable_def world0_def redis0_def)
  have l: "live (redis world0) t (RateLimitUserKey (uid (select_public alice))) = None" for t
    by (simp add: live_def world0_def redis0_def)
  have cp: "protected_route_limiter ChangePassword 100 world0 req_alice
              = (world0\<lparr>redis := (redis world0)\<lparr>entries := (entries (redis world0))
                    (RateLimitUserKey ''u1'' \<mapsto> (Counter 1, Some 3700))\<rparr>\<rparr>, Next req_alice)"
    using userRateLimit_fresh [OF u r0 l, where t = 100 and windowMs = "60 * 60 * 1000" and K = 5]
    by (simp add: protected_route_limiter_def i)
  have da: "protected_route_limiter DeactivateAccount 110 world0 req_alice
              = (world0\<lparr>redis := (redis world0)\<lparr>entries := (entries (redis world0))
                    (RateLimitUserKey ''u1'' \<mapsto> (Counter 1, Some 86510))\<rparr>\<rparr>, Next req_alice)"
    using userRateLimit_fresh [OF u r0 l, where t = 110 and windowMs = "24 * 60 * 60 * 1000"
        and K = 1]
    by (simp add: protected_route_limiter_def i)
  have w1: "world_after_change_password
              = world0\<lparr>redis := (redis world0)\<lparr>entries := (entries (redis world0))
                    (RateLimitUserKey ''u1'' \<mapsto> (Counter 1, Some 3700))\<rparr>\<rparr>"
    by (simp add: world_after_change_password_def cp)
  have r1: "reachable (redis world_after_change_password)"
    using r0 by (simp add: w1 reachable_def)
  have e1: "entries (redis world_after_change_password)
              (RateLimitUserKey (uid (select_public alice))) = Some (Counter (int 1), Some 3700)"
    by (simp add: w1 i)
  have "protected_route_limiter DeactivateAccount 110 world_after_change_password req_alice
     = (world_after_change_password
          \<lparr>redis := (redis world_after_change_password)
             \<lparr>entries := (entries (redis world_after_change_password))
                (RateLimitUserKey ''u1'' \<mapsto> (Counter 2, Some 3700))\<rparr>\<rparr>,
        Responded (too_many (24 * 60 * 60 * 1000)))"
    using userRateLimit_live [OF u r1 e1, where t = 110 and windowMs = "24 * 60 * 60 * 1000"
        and K = 1]
    by (simp add: protected_route_limiter_def i)
  then show ?thesis using cp da e1
    by (simp add: too_many_def failure_def i)
qed

text \<open>
  Claim C9. A request that reaches the per-user rate limiter with no identity attached
  (\<^verbatim>\<open>req.user\<close> absent) is passed to the next handler unchanged, nothing is counted (the
  store is left as it was), and no rate-limit response is produced, whatever the window
  and the limit; so the limiter declared on each public route of \<^verbatim>\<open>routes/auth.js\<close>,
  which runs before any authentication, rejects no request.
\<close>

theorem userRateLimit_skips_unauthenticated:
  "user req = None \<Longrightarrow>
     userRateLimit windowMs maxRequests now w req = (w, Next req) \<and>
     route_limiter r now w req = (w, Next req)"
  by (simp add: userRateLimit_no_user route_limiter_no_user)

theorem userRateLimit_skips_unauthenticated_witness:
  "userRateLimit (15 * 60 * 1000) 10 5 world0 req_login = (world0, Next req_login) \<and>
   route_limiter Login 5 world0 req_login = (world0, Next req_login)"
proof -
  have "user req_login = None" by (simp add: req_login_def req0_def)
  from userRateLimit_skips_unauthenticated [OF this, of "15 * 60 * 1000" 10 5 world0 Login]
  show ?thesis .
qed

subsection \<open>What the session cache holds\<close>










subsection \<open>Optional authentication\<close>

text \<open>With a bearer header, \<^verbatim>\<open>optionalAuth\<close> does what \<^verbatim>\<open>authenticate\<close> does.\<close>

lemma optionalAuth_bearer:
  "header_authorization req = Bearer tok \<Longrightarrow>
     optionalAuth cfg now w req = authenticate cfg now w req"
  by (cases "authenticate cfg now w req"; cases "snd (authenticate cfg now w req)")
     (auto simp: optionalAuth_def optionalAuth_callback_def)

text \<open>
  Claim C4. The optional-auth middleware is claimed never to reject a request. Presented
  with a bearer token that is not a JWT, it sends the 401 response \<^verbatim>\<open>INVALID_TOKEN\<close> of
  \<^verbatim>\<open>authenticate\<close>: the request does not proceed to the next handler as a guest.
\<close>

theorem optionalAuth_rejects_invalid_token:
  "optionalAuth default_config 100 world0 req_garbage =
     (world0, Responded (failure 401 ''Invalid token''
                 (Some ''Token is malformed or invalid'') ''INVALID_TOKEN''))"
  by (simp add: optionalAuth_def authenticate_def req_garbage_def req0_def)

subsection \<open>Forgotten passwords\<close>

text \<open>
  Claim C3. \<^verbatim>\<open>forgotPassword\<close> is claimed to answer with the same message whether or
  not the email is registered. For the registered address \<^verbatim>\<open>a@x.com\<close> and the unknown
  address \<^verbatim>\<open>nobody@x.com\<close> both answers are successes, with two different messages.
\<close>

theorem forgotPassword_messages_differ:
  "snd (forgotPassword 100 ''r'' world0 req_forgot_known) = Responded (ok 200 msg_reset_sent) \<and>
   snd (forgotPassword 100 ''r'' world0 req_forgot_unknown)
     = Responded (ok 200 msg_reset_if_registered) \<and>
   msg_reset_sent \<noteq> msg_reset_if_registered"
  by (simp add: forgotPassword_def req_forgot_known_def req_forgot_unknown_def req0_def
      world0_def User_findOne_email_def lower_ascii_samples save_def alice_def
      msg_reset_sent_def msg_reset_if_registered_def)

end
